theory Spec2Isabelle
  imports Main
begin

section \<open>Data model of the job-orchestration engine\<close>

text \<open>
  The embedding follows \<^verbatim>\<open>services/orchest-api/app/app/apis/namespace_jobs.py\<close>.
  Identifiers are strings, points in time are integers (microseconds since the epoch,
  UTC), Python's unbounded integers are \<^typ>\<open>int\<close>. The status columns hold one of
  the seven literals the code compares against.
\<close>

type_synonym uuid = string
type_synonym datetime = int

datatype status = DRAFT | PENDING | STARTED | PAUSED | SUCCESS | FAILURE | ABORTED

datatype json =
    JNull
  | JBool bool
  | JInt int
  | JStr string
  | JList "json list"
  | JDict "(string \<times> json) list"

text \<open>One parameter set of a job: keys are step uuids or the reserved pipeline key.\<close>
type_synonym run_parameters = "(string \<times> json) list"

record step_definition =
  sd_parameters :: json
  sd_environment :: uuid

record pipeline_definition =
  pd_parameters :: json
  pd_steps :: "(uuid \<times> step_definition) list"

record run_config =
  rc_other :: json
  env_uuid_docker_id_mappings :: "(uuid \<times> string) list"
  user_env_variables :: "(string \<times> string) list"

record pipeline_run_spec =
  prs_other :: json
  prs_run_config :: run_config

text \<open>
  A \<^verbatim>\<open>Pipeline\<close> object (class of \<^verbatim>\<open>app.core.pipelines\<close>) as far as this module
  looks into it: the uuid property of each of its steps, in order, and its
  \<^verbatim>\<open>to_dict()\<close>.
\<close>
record pipeline =
  p_step_uuids :: "uuid list"
  p_to_dict :: pipeline_definition

record job =
  j_uuid :: uuid
  j_name :: string
  j_project_uuid :: uuid
  j_pipeline_uuid :: uuid
  j_pipeline_name :: string
  schedule :: "string option"
  j_parameters :: "run_parameters list"
  j_env_variables :: "(string \<times> string) list"
  j_pipeline_definition :: pipeline_definition
  j_pipeline_run_spec :: pipeline_run_spec
  total_scheduled_executions :: int
  total_scheduled_pipeline_runs :: int
  next_scheduled_time :: "datetime option"
  last_scheduled_time :: "datetime option"
  j_status :: status
  strategy_json :: json
  created_time :: datetime
  max_retained_pipeline_runs :: int
  image_mappings :: "(uuid \<times> string) list"

text \<open>A row of \<^verbatim>\<open>NonInteractivePipelineRun\<close>.\<close>
record run =
  job_uuid :: uuid
  r_uuid :: uuid
  r_pipeline_uuid :: uuid
  r_project_uuid :: uuid
  r_status :: status
  r_parameters :: run_parameters
  job_run_index :: int
  job_run_pipeline_run_index :: int
  pipeline_run_index :: int
  r_env_variables :: "(string \<times> string) list"

text \<open>A row of \<^verbatim>\<open>PipelineRunStep\<close>.\<close>
record step =
  run_uuid :: uuid
  step_uuid :: uuid
  s_status :: status

text \<open>
  The relational store. Jobs are keyed by their primary key. The run and step tables
  are lists: the order of a list is the order in which the store hands the rows to a
  query that has no \<^verbatim>\<open>ORDER BY\<close>.
\<close>
record db =
  jobs :: "uuid \<rightharpoonup> job"
  runs :: "run list"
  steps :: "step list"

datatype error =
    NoResultFound
  | KeyError string
  | ValueError string
  | ImageNotFound "uuid list"
  | PipelineError
  | RequestException
  | CroniterError
  | StatusUpdateError
  | CeleryError

datatype log_entry =
    Info_DeletingNonRetained uuid int
  | Info_NothingToDo
  | Info_DeletingRun uuid
  | Error_UnexpectedStatusCode int uuid
  | Info_SuccessfullyDeleted uuid
  | Info_CompletedRuns uuid int int

record celery_task =
  task_name :: string
  task_id :: uuid
  kw_job_uuid :: uuid
  kw_project_uuid :: uuid
  kw_pipeline_definition :: pipeline_definition
  kw_run_config :: "run_config option"

text \<open>
  What the collateral phases do to the outside world: log lines written, the URLs of
  the \<^verbatim>\<open>DELETE\<close> requests issued, the tasks sent to celery and the calls of
  \<^verbatim>\<open>process_stale_environment_images\<close>, each in the order of issue.
\<close>
record effects =
  fx_log :: "log_entry list"
  http_deletes :: "string list"
  sent_tasks :: "celery_task list"
  stale_image_calls :: "(uuid \<times> bool) list"

record status_update =
  su_status :: status
  su_started_time :: "string option"
  su_finished_time :: "string option"

text \<open>
  The collaborators this module imports and that are not part of it. Each is a
  parameter of the model:
  \<^item> \<open>requests_delete\<close>: \<^verbatim>\<open>requests.delete\<close>; given the requests issued so far and
    the URL, the call raises or returns the status code of the response;
  \<^item> \<open>webserver_address\<close>: \<^verbatim>\<open>current_app.config["ORCHEST_WEBSERVER_ADDRESS"]\<close>;
  \<^item> \<open>send_task\<close>: \<^verbatim>\<open>celery.send_task\<close> followed by \<^verbatim>\<open>res.forget()\<close>;
  \<^item> \<open>construct_pipeline\<close>: \<^verbatim>\<open>app.core.pipelines.construct_pipeline\<close>;
  \<^item> \<open>reserved_key\<close>: \<^verbatim>\<open>_config.PIPELINE_PARAMETERS_RESERVED_KEY\<close>;
  \<^item> \<open>croniter_is_valid\<close>, \<open>croniter_get_next\<close>: the croniter library;
  \<^item> \<open>fromisoformat\<close>: \<^verbatim>\<open>datetime.fromisoformat\<close>;
  \<^item> \<open>update_status_db_runs\<close>, \<open>update_status_db_steps\<close>: \<^verbatim>\<open>app.utils.update_status_db\<close>
    at the model \<^verbatim>\<open>NonInteractivePipelineRun\<close> and at the model \<^verbatim>\<open>PipelineRunStep\<close>;
    the call rewrites the rows of that model's table only;
  \<^item> \<open>get_env_uuids_missing_image\<close>, \<open>are_environment_variables_valid\<close>: helpers of
    \<^verbatim>\<open>app.utils\<close> and \<^verbatim>\<open>_orchest.internals.utils\<close>;
  \<^item> \<open>process_stale_environment_images\<close>: the helper of \<^verbatim>\<open>app.utils\<close>, which raises
    or returns nothing.
\<close>
record env =
  requests_delete :: "string list \<Rightarrow> string \<Rightarrow> error + int"
  webserver_address :: string
  send_task :: "celery_task \<Rightarrow> error option"
  construct_pipeline :: "pipeline_run_spec \<Rightarrow> pipeline_definition \<Rightarrow> error + pipeline"
  reserved_key :: string
  croniter_is_valid :: "string \<Rightarrow> bool"
  croniter_get_next :: "string \<Rightarrow> datetime \<Rightarrow> error + datetime"
  fromisoformat :: "string \<Rightarrow> error + datetime"
  update_status_db_runs ::
    "status_update \<Rightarrow> (string \<times> string) list \<Rightarrow> run list \<Rightarrow> error + run list"
  update_status_db_steps ::
    "status_update \<Rightarrow> (string \<times> string) list \<Rightarrow> step list \<Rightarrow> error + step list"
  get_env_uuids_missing_image :: "uuid \<Rightarrow> uuid list \<Rightarrow> uuid list"
  are_environment_variables_valid :: "(string \<times> string) list \<Rightarrow> bool"
  process_stale_environment_images :: "uuid \<Rightarrow> bool \<Rightarrow> error option"

section \<open>Retention pruning\<close>

text \<open>The filter of the query that selects \<^verbatim>\<open>runs_to_be_deleted\<close>.\<close>
definition out_of_retention :: "uuid \<Rightarrow> job \<Rightarrow> run \<Rightarrow> bool" where
  "out_of_retention ju j r \<longleftrightarrow>
     job_uuid r = ju \<and>
     r_status r \<in> set [SUCCESS, FAILURE, ABORTED] \<and>
     pipeline_run_index r
       \<le> (total_scheduled_pipeline_runs j - 1) - max_retained_pipeline_runs j"

definition runs_to_be_deleted :: "uuid \<Rightarrow> job \<Rightarrow> run list \<Rightarrow> uuid list" where
  "runs_to_be_deleted ju j rs = map r_uuid (filter (out_of_retention ju j) rs)"

definition cleanup_url :: "env \<Rightarrow> uuid \<Rightarrow> uuid \<Rightarrow> string" where
  "cleanup_url e ju ru =
     webserver_address e @ ''/catch/api-proxy/api/jobs/cleanup/'' @ ju @ ''/'' @ ru"

text \<open>The loop over \<^verbatim>\<open>runs_to_be_deleted\<close>: one request per run, then one log line.\<close>
fun delete_runs :: "env \<Rightarrow> uuid \<Rightarrow> uuid list \<Rightarrow> effects \<Rightarrow> error + effects" where
  "delete_runs e ju [] fx = Inr fx"
| "delete_runs e ju (ru # rest) fx =
     (let fx1 = fx\<lparr>fx_log := fx_log fx @ [Info_DeletingRun ru]\<rparr>;
          base_url = cleanup_url e ju ru
      in case requests_delete e (http_deletes fx1) base_url of
           Inl err \<Rightarrow> Inl err
         | Inr status_code \<Rightarrow>
             delete_runs e ju rest
               (fx1\<lparr>http_deletes := http_deletes fx1 @ [base_url],
                    fx_log := fx_log fx1 @
                      [if status_code \<notin> set [200, 404]
                       then Error_UnexpectedStatusCode status_code ru
                       else Info_SuccessfullyDeleted ru]\<rparr>))"

definition delete_non_retained_pipeline_runs ::
  "env \<Rightarrow> uuid \<Rightarrow> db \<Rightarrow> effects \<Rightarrow> error + effects" where
  "delete_non_retained_pipeline_runs e ju d fx =
     (case jobs d ju of
        None \<Rightarrow> Inl NoResultFound
      | Some j \<Rightarrow>
          (let fx1 = fx\<lparr>fx_log := fx_log fx @
                        [Info_DeletingNonRetained ju (max_retained_pipeline_runs j)]\<rparr>
           in if max_retained_pipeline_runs j < 0
              then Inr (fx1\<lparr>fx_log := fx_log fx1 @ [Info_NothingToDo]\<rparr>)
              else delete_runs e ju (runs_to_be_deleted ju j (runs d)) fx1))"


section \<open>RunJob\<close>

text \<open>The \<^verbatim>\<open>collateral_kwargs\<close> of \<^verbatim>\<open>RunJob\<close>; \<open>None\<close> stands for an empty dict.\<close>
record run_job_kwargs =
  ck_job :: "job option"
  ck_run_config :: "run_config option"
  ck_tasks_to_launch :: "(uuid \<times> pipeline) list"

text \<open>\<^verbatim>\<open>pipeline_def["steps"][step_uuid]["parameters"] = step_parameters\<close>\<close>
fun set_step_parameters ::
  "uuid \<Rightarrow> json \<Rightarrow> (uuid \<times> step_definition) list \<Rightarrow> error + (uuid \<times> step_definition) list"
where
  "set_step_parameters su ps [] = Inl (KeyError su)"
| "set_step_parameters su ps ((k, sd) # rest) =
     (if k = su then Inr ((k, sd\<lparr>sd_parameters := ps\<rparr>) # rest)
      else (case set_step_parameters su ps rest of
              Inl err \<Rightarrow> Inl err
            | Inr rest' \<Rightarrow> Inr ((k, sd) # rest')))"

text \<open>The inner loop over \<^verbatim>\<open>run_parameters.items()\<close>.\<close>
fun overlay_step_parameters ::
  "string \<Rightarrow> run_parameters \<Rightarrow> pipeline_definition \<Rightarrow> error + pipeline_definition"
where
  "overlay_step_parameters rk [] pd = Inr pd"
| "overlay_step_parameters rk ((key, step_parameters) # rest) pd =
     (if key \<noteq> rk
      then (case set_step_parameters key step_parameters (pd_steps pd) of
              Inl err \<Rightarrow> Inl err
            | Inr st \<Rightarrow> overlay_step_parameters rk rest (pd\<lparr>pd_steps := st\<rparr>))
      else overlay_step_parameters rk rest pd)"

text \<open>
  The loop over \<^verbatim>\<open>enumerate(job.parameters)\<close>. \<open>ids k\<close> is the value of the
  \<open>k\<close>-th call of \<^verbatim>\<open>uuid.uuid4()\<close> in this invocation. The loop state is the job row,
  the run table, the step table and \<^verbatim>\<open>tasks_to_launch\<close>.
\<close>
fun launch_runs ::
  "env \<Rightarrow> (nat \<Rightarrow> uuid) \<Rightarrow> nat \<Rightarrow> run_parameters list \<Rightarrow> job \<Rightarrow> run list \<Rightarrow> step list \<Rightarrow>
   (uuid \<times> pipeline) list \<Rightarrow> error + (job \<times> run list \<times> step list \<times> (uuid \<times> pipeline) list)"
where
  "launch_runs e ids run_index [] j rs ss tasks = Inr (j, rs, ss, tasks)"
| "launch_runs e ids run_index (run_parameters # rest) j rs ss tasks =
     (let pipeline_def0 = (j_pipeline_definition j)
            \<lparr>pd_parameters := (case map_of run_parameters (reserved_key e) of
                                 None \<Rightarrow> JDict [] | Some v \<Rightarrow> v)\<rparr>
      in case overlay_step_parameters (reserved_key e) run_parameters pipeline_def0 of
           Inl err \<Rightarrow> Inl err
         | Inr pipeline_def \<Rightarrow>
            (case construct_pipeline e (j_pipeline_run_spec j) pipeline_def of
               Inl err \<Rightarrow> Inl err
             | Inr pl \<Rightarrow>
                (let tid = ids run_index;
                     non_interactive_run =
                       \<lparr>job_uuid = j_uuid j,
                        r_uuid = tid,
                        r_pipeline_uuid = j_pipeline_uuid j,
                        r_project_uuid = j_project_uuid j,
                        r_status = PENDING,
                        r_parameters = run_parameters,
                        job_run_index = total_scheduled_executions j,
                        job_run_pipeline_run_index = int run_index,
                        pipeline_run_index = total_scheduled_pipeline_runs j,
                        r_env_variables = j_env_variables j\<rparr>;
                     j1 = j\<lparr>total_scheduled_pipeline_runs :=
                             total_scheduled_pipeline_runs j + 1\<rparr>;
                     pipeline_steps =
                       map (\<lambda>su. \<lparr>run_uuid = tid, step_uuid = su, s_status = PENDING\<rparr>)
                         (p_step_uuids pl)
                 in launch_runs e ids (Suc run_index) rest j1
                      (rs @ [non_interactive_run]) (ss @ pipeline_steps)
                      (tasks @ [(tid, pl)]))))"

text \<open>
  \<^verbatim>\<open>RunJob._transaction\<close>. The branch for an ABORTED job assigns the three collateral
  arguments and falls through to the rest of the body, as in the source; the
  assignments at the end of the body overwrite them.
\<close>
definition run_job ::
  "env \<Rightarrow> (nat \<Rightarrow> uuid) \<Rightarrow> uuid \<Rightarrow> db \<Rightarrow> error + (db \<times> run_job_kwargs)" where
  "run_job e ids ju d =
     (case jobs d ju of
        None \<Rightarrow> Inl NoResultFound
      | Some job0 \<Rightarrow>
          (let unset = \<lparr>ck_job = None, ck_run_config = None, ck_tasks_to_launch = []\<rparr>;
               ck0 = (if j_status job0 = ABORTED
                      then unset\<lparr>ck_job := None, ck_tasks_to_launch := [],
                                 ck_run_config := None\<rparr>
                      else unset);
               job1 = (if j_status job0 = PENDING then job0\<lparr>j_status := STARTED\<rparr>
                       else job0)
           in case launch_runs e ids 0 (j_parameters job1) job1 (runs d) (steps d) [] of
                Inl err \<Rightarrow> Inl err
              | Inr (job2, rs, ss, tasks_to_launch) \<Rightarrow>
                  (let job3 = job2\<lparr>total_scheduled_executions :=
                                     total_scheduled_executions job2 + 1\<rparr>;
                       rc = (prs_run_config (j_pipeline_run_spec job3))
                              \<lparr>env_uuid_docker_id_mappings := image_mappings job3,
                               user_env_variables := j_env_variables job3\<rparr>
                   in Inr (d\<lparr>jobs := (jobs d)(ju \<mapsto> job3), runs := rs, steps := ss\<rparr>,
                           ck0\<lparr>ck_job := Some job3, ck_run_config := Some rc,
                               ck_tasks_to_launch := tasks_to_launch\<rparr>))))"

text \<open>The loop of \<^verbatim>\<open>RunJob._collateral\<close> that sends each task to celery.\<close>
fun launch_tasks ::
  "env \<Rightarrow> job \<Rightarrow> run_config option \<Rightarrow> (uuid \<times> pipeline) list \<Rightarrow> effects \<Rightarrow> error + effects"
where
  "launch_tasks e j rc [] fx = Inr fx"
| "launch_tasks e j rc ((tid, pl) # rest) fx =
     (let task = \<lparr>task_name = ''app.core.tasks.start_non_interactive_pipeline_run'',
                  task_id = tid,
                  kw_job_uuid = j_uuid j,
                  kw_project_uuid = j_project_uuid j,
                  kw_pipeline_definition = p_to_dict pl,
                  kw_run_config = rc\<rparr>
      in case send_task e task of
           Some err \<Rightarrow> Inl err
         | None \<Rightarrow> launch_tasks e j rc rest (fx\<lparr>sent_tasks := sent_tasks fx @ [task]\<rparr>))"

text \<open>
  \<^verbatim>\<open>RunJob._collateral\<close>; \<open>d\<close> is the store as the collateral phase finds it, after
  the commit.
\<close>
definition run_job_collateral ::
  "env \<Rightarrow> db \<Rightarrow> run_job_kwargs \<Rightarrow> effects \<Rightarrow> error + effects" where
  "run_job_collateral e d ck fx =
     (if ck_tasks_to_launch ck = [] then Inr fx
      else (case ck_job ck of
              None \<Rightarrow> Inl (KeyError ''uuid'')
            | Some j \<Rightarrow>
               (case delete_non_retained_pipeline_runs e (j_uuid j) d fx of
                  Inl err \<Rightarrow> Inl err
                | Inr fx1 \<Rightarrow> launch_tasks e j (ck_run_config ck) (ck_tasks_to_launch ck) fx1)))"

section \<open>AbortJob\<close>

record abort_job_kwargs =
  ak_run_uuids :: "uuid list"
  ak_job_uuid :: uuid
  ak_project_uuid :: "uuid option"

definition aborted_update :: status_update where
  "aborted_update = \<lparr>su_status = ABORTED, su_started_time = None, su_finished_time = None\<rparr>"

text \<open>The loop that sets each collected run and its steps to ABORTED.\<close>
fun abort_runs ::
  "env \<Rightarrow> uuid list \<Rightarrow> run list \<Rightarrow> step list \<Rightarrow> error + (run list \<times> step list)" where
  "abort_runs e [] rs ss = Inr (rs, ss)"
| "abort_runs e (ru # rest) rs ss =
     (case update_status_db_runs e aborted_update [(''uuid'', ru)] rs of
        Inl err \<Rightarrow> Inl err
      | Inr rs1 \<Rightarrow>
         (case update_status_db_steps e aborted_update [(''run_uuid'', ru)] ss of
            Inl err \<Rightarrow> Inl err
          | Inr ss1 \<Rightarrow> abort_runs e rest rs1 ss1))"

text \<open>
  \<^verbatim>\<open>AbortJob._transaction\<close>. The result is \<open>Some False\<close> for \<^verbatim>\<open>return False\<close>,
  \<open>None\<close> for the bare \<^verbatim>\<open>return\<close> and \<open>Some True\<close> for \<^verbatim>\<open>return True\<close>.
\<close>
definition abort_job ::
  "env \<Rightarrow> uuid \<Rightarrow> db \<Rightarrow> error + (bool option \<times> db \<times> abort_job_kwargs)" where
  "abort_job e ju d =
     (let ck = \<lparr>ak_run_uuids = [], ak_job_uuid = ju, ak_project_uuid = None\<rparr>
      in case jobs d ju of
           None \<Rightarrow> Inr (Some False, d, ck)
         | Some j \<Rightarrow>
            (let ck1 = ck\<lparr>ak_project_uuid := Some (j_project_uuid j)\<rparr>
             in if j_status j \<in> set [SUCCESS, FAILURE, ABORTED] then Inr (None, d, ck1)
                else
                  (let j1 = j\<lparr>j_status := ABORTED, next_scheduled_time := None\<rparr>;
                       run_uuids =
                         map r_uuid
                           (filter (\<lambda>r. job_uuid r = ju \<and> r_status r \<in> set [PENDING, STARTED])
                              (runs d))
                   in case abort_runs e run_uuids (runs d) (steps d) of
                        Inl err \<Rightarrow> Inl err
                      | Inr (rs, ss) \<Rightarrow>
                          Inr (Some True,
                               d\<lparr>jobs := (jobs d)(ju \<mapsto> j1), runs := rs, steps := ss\<rparr>,
                               ck1\<lparr>ak_run_uuids := run_uuids\<rparr>))))"


section \<open>UpdateJob\<close>

text \<open>
  The arguments \<^verbatim>\<open>Job.put\<close> reads from the request body with \<^verbatim>\<open>job_update.get\<close>:
  \<open>None\<close> is a key that is absent or null. \<open>u_confirm_draft\<close> is
  \<^verbatim>\<open>"confirm_draft" in job_update\<close>.
\<close>
record job_update =
  u_name :: "string option"
  u_cron_schedule :: "string option"
  u_parameters :: "run_parameters list option"
  u_env_variables :: "(string \<times> string) list option"
  u_next_scheduled_time :: "string option"
  u_strategy_json :: "json option"
  u_max_retained_pipeline_runs :: "int option"
  u_confirm_draft :: bool

definition and_then :: "error + 'a \<Rightarrow> ('a \<Rightarrow> error + 'b) \<Rightarrow> error + 'b" where
  "and_then r f = (case r of Inl err \<Rightarrow> Inl err | Inr x \<Rightarrow> f x)"

text \<open>
  The blocks of \<^verbatim>\<open>UpdateJob._transaction\<close>, one per argument, in source order. The
  message of the last \<^verbatim>\<open>ValueError\<close> ends where the source prints the rejected number.
\<close>

definition upd_name :: "job_update \<Rightarrow> job \<Rightarrow> error + job" where
  "upd_name u j = (case u_name u of None \<Rightarrow> Inr j | Some n \<Rightarrow> Inr (j\<lparr>j_name := n\<rparr>))"

definition upd_cron_schedule :: "env \<Rightarrow> datetime \<Rightarrow> job_update \<Rightarrow> job \<Rightarrow> error + job" where
  "upd_cron_schedule e now u j =
     (case u_cron_schedule u of
        None \<Rightarrow> Inr j
      | Some cron_schedule \<Rightarrow>
          if schedule j = None \<and> j_status j \<noteq> DRAFT
          then Inl (ValueError ''Failed update operation. Cannot set the schedule of a job which is not a cron job already.'')
          else if \<not> croniter_is_valid e cron_schedule
          then Inl (ValueError (''Failed update operation. Invalid cron schedule: '' @ cron_schedule))
          else (case croniter_get_next e cron_schedule now of
                  Inl err \<Rightarrow> Inl err
                | Inr t \<Rightarrow> Inr (j\<lparr>schedule := Some cron_schedule,
                                   next_scheduled_time := Some t\<rparr>)))"

definition upd_parameters :: "job_update \<Rightarrow> job \<Rightarrow> error + job" where
  "upd_parameters u j =
     (case u_parameters u of
        None \<Rightarrow> Inr j
      | Some ps \<Rightarrow>
          if schedule j = None \<and> j_status j \<noteq> DRAFT
          then Inl (ValueError ''Failed update operation. Cannot update the parameters of a job which is not a cron job.'')
          else Inr (j\<lparr>j_parameters := ps\<rparr>))"

definition upd_env_variables :: "env \<Rightarrow> job_update \<Rightarrow> job \<Rightarrow> error + job" where
  "upd_env_variables e u j =
     (case u_env_variables u of
        None \<Rightarrow> Inr j
      | Some vs \<Rightarrow>
          if schedule j = None \<and> j_status j \<noteq> DRAFT
          then Inl (ValueError ''Failed update operation. Cannot update the env variables of a job which is not a cron job.'')
          else if \<not> are_environment_variables_valid e vs
          then Inl (ValueError ''Invalid environment variables definition.'')
          else Inr (j\<lparr>j_env_variables := vs\<rparr>))"

definition upd_next_scheduled_time :: "env \<Rightarrow> job_update \<Rightarrow> job \<Rightarrow> error + job" where
  "upd_next_scheduled_time e u j =
     (case u_next_scheduled_time u of
        None \<Rightarrow> Inr j
      | Some nst \<Rightarrow>
          if j_status j \<noteq> DRAFT
          then Inl (ValueError ''Failed update operation. Cannot set the next scheduled time of a job which is not a draft.'')
          else if schedule j \<noteq> None \<and> u_cron_schedule u \<noteq> None
          then Inl (ValueError ''Failed update operation. Cannot set the next scheduled time of a cron job.'')
          else (let j1 = (if u_cron_schedule u = None then j\<lparr>schedule := None\<rparr> else j)
                in case fromisoformat e nst of
                     Inl err \<Rightarrow> Inl err
                   | Inr t \<Rightarrow> Inr (j1\<lparr>next_scheduled_time := Some t\<rparr>)))"

text \<open>The block commented \<^verbatim>\<open>The job needs to be scheduled now.\<close>\<close>
definition upd_schedule_now :: "job_update \<Rightarrow> job \<Rightarrow> error + job" where
  "upd_schedule_now u j =
     (if j_status j = DRAFT \<and> u_next_scheduled_time u = None \<and> u_cron_schedule u = None
      then Inr (j\<lparr>schedule := None, next_scheduled_time := None\<rparr>)
      else Inr j)"

definition upd_strategy_json :: "job_update \<Rightarrow> job \<Rightarrow> error + job" where
  "upd_strategy_json u j =
     (case u_strategy_json u of
        None \<Rightarrow> Inr j
      | Some sj \<Rightarrow>
          if schedule j = None \<and> j_status j \<noteq> DRAFT
          then Inl (ValueError ''Failed update operation. Cannot set the strategy jsonof a job which is not a draft nor a cron job.'')
          else Inr (j\<lparr>strategy_json := sj\<rparr>))"

definition upd_max_retained_pipeline_runs :: "job_update \<Rightarrow> job \<Rightarrow> error + job" where
  "upd_max_retained_pipeline_runs u j =
     (case u_max_retained_pipeline_runs u of
        None \<Rightarrow> Inr j
      | Some m \<Rightarrow>
          if schedule j = None \<and> j_status j \<noteq> DRAFT
          then Inl (ValueError ''Failed update operation. Cannot update the max_retained_pipeline_runs of a job which is not a draft nor a cron job.'')
          else if m < - 1
          then Inl (ValueError ''Failed update operation. Invalid max_retained_pipeline_runs: '')
          else Inr (j\<lparr>max_retained_pipeline_runs := m\<rparr>))"

definition update_job_fields :: "env \<Rightarrow> datetime \<Rightarrow> job_update \<Rightarrow> job \<Rightarrow> error + job" where
  "update_job_fields e now u j0 =
     and_then (upd_name u j0) (\<lambda>j1.
     and_then (upd_cron_schedule e now u j1) (\<lambda>j2.
     and_then (upd_parameters u j2) (\<lambda>j3.
     and_then (upd_env_variables e u j3) (\<lambda>j4.
     and_then (upd_next_scheduled_time e u j4) (\<lambda>j5.
     and_then (upd_schedule_now u j5) (\<lambda>j6.
     and_then (upd_strategy_json u j6) (\<lambda>j7.
     upd_max_retained_pipeline_runs u j7)))))))"

text \<open>
  The block \<^verbatim>\<open>if confirm_draft:\<close>. \<open>j\<close> is the job row as the earlier blocks left it;
  it is written to the store under the key \<open>ju\<close> it was read from.
\<close>
definition confirm_draft ::
  "env \<Rightarrow> datetime \<Rightarrow> (nat \<Rightarrow> uuid) \<Rightarrow> uuid \<Rightarrow> db \<Rightarrow> job \<Rightarrow> error + (db \<times> run_job_kwargs option)"
where
  "confirm_draft e now ids ju d j =
     (if j_status j \<noteq> DRAFT
      then Inl (ValueError ''Failed update operation. The job is not a draft.'')
      else
        (let environment_uuids =
               remdups (map (\<lambda>(k, sd). sd_environment sd) (pd_steps (j_pipeline_definition j)));
             env_uuids_missing_image =
               get_env_uuids_missing_image e (j_project_uuid j) environment_uuids
         in if env_uuids_missing_image \<noteq> [] then Inl (ImageNotFound env_uuids_missing_image)
            else if schedule j = None
            then
              (let j1 = j\<lparr>j_status := PENDING\<rparr>
               in if next_scheduled_time j1 = None
                  then
                    (let j2 = j1\<lparr>last_scheduled_time := Some now\<rparr>
                     in case run_job e ids (j_uuid j2) (d\<lparr>jobs := (jobs d)(ju \<mapsto> j2)\<rparr>) of
                          Inl err \<Rightarrow> Inl err
                        | Inr (d', ck) \<Rightarrow> Inr (d', Some ck))
                  else Inr (d\<lparr>jobs := (jobs d)
                                (ju \<mapsto> j1\<lparr>last_scheduled_time := next_scheduled_time j1\<rparr>)\<rparr>,
                            None))
            else Inr (d\<lparr>jobs := (jobs d)
                          (ju \<mapsto> j\<lparr>last_scheduled_time := next_scheduled_time j,
                                   j_status := STARTED\<rparr>)\<rparr>,
                      None)))"

text \<open>
  \<^verbatim>\<open>UpdateJob._transaction\<close>. The second component of the result is the collateral
  of the \<^verbatim>\<open>RunJob\<close> that a confirmation may run inline.
\<close>
definition update_job ::
  "env \<Rightarrow> datetime \<Rightarrow> (nat \<Rightarrow> uuid) \<Rightarrow> uuid \<Rightarrow> job_update \<Rightarrow> db \<Rightarrow>
   error + (db \<times> run_job_kwargs option)" where
  "update_job e now ids ju u d =
     (case jobs d ju of
        None \<Rightarrow> Inl NoResultFound
      | Some j0 \<Rightarrow>
          (case update_job_fields e now u j0 of
             Inl err \<Rightarrow> Inl err
           | Inr j \<Rightarrow>
               if u_confirm_draft u then confirm_draft e now ids ju d j
               else Inr (d\<lparr>jobs := (jobs d)(ju \<mapsto> j)\<rparr>, None)))"

text \<open>
  Modelled from the spec: \<^verbatim>\<open>TwoPhaseExecutor\<close> of
  \<^verbatim>\<open>_orchest.internals.two_phase_executor\<close> is not among the sources. Section 4.1 of
  the specification: if the transaction phase raises, the store transaction is rolled
  back and the collateral phase never runs; \<^verbatim>\<open>Job.put\<close> also calls
  \<^verbatim>\<open>db.session.rollback()\<close> in its handler. The store after the transaction phase is
  the store before it when the phase raised, and the store it returned otherwise.
\<close>
definition store_after :: "(db \<Rightarrow> error + (db \<times> 'c)) \<Rightarrow> db \<Rightarrow> db" where
  "store_after f d = (case f d of Inl err \<Rightarrow> d | Inr (d', c) \<Rightarrow> d')"

section \<open>UpdateJobPipelineRun\<close>

record update_run_kwargs =
  uk_project_uuid :: "uuid option"
  uk_job_uuid :: "uuid option"
  uk_completed :: bool

text \<open>The count of the job's runs that are still PENDING or STARTED.\<close>
definition runs_to_complete :: "uuid \<Rightarrow> run list \<Rightarrow> nat" where
  "runs_to_complete ju rs =
     length (filter (\<lambda>r. job_uuid r = ju \<and> r_status r \<in> set [PENDING, STARTED]) rs)"

text \<open>
  \<^verbatim>\<open>UpdateJobPipelineRun._transaction\<close>. The result holds the store, the collateral
  arguments and the line the transaction logs.
\<close>
definition update_job_pipeline_run ::
  "env \<Rightarrow> uuid \<Rightarrow> uuid \<Rightarrow> status_update \<Rightarrow> db \<Rightarrow>
   error + (db \<times> update_run_kwargs \<times> log_entry list)" where
  "update_job_pipeline_run e ju ru su d =
     (let ck = \<lparr>uk_project_uuid = None, uk_job_uuid = None, uk_completed = False\<rparr>
      in case update_status_db_runs e su [(''job_uuid'', ju), (''uuid'', ru)] (runs d) of
           Inl err \<Rightarrow> Inl err
         | Inr rs \<Rightarrow>
            (let d1 = d\<lparr>runs := rs\<rparr>
             in if su_status su \<in> set [SUCCESS, FAILURE, ABORTED]
                then
                  (case jobs d1 ju of
                     None \<Rightarrow> Inl NoResultFound
                   | Some j \<Rightarrow>
                      (let ck1 = ck\<lparr>uk_project_uuid := Some (j_project_uuid j),
                                    uk_job_uuid := Some (j_uuid j)\<rparr>
                       in if schedule j = None
                          then
                            (let n = runs_to_complete ju rs;
                                 lg = [Info_CompletedRuns ju
                                         (int (length (j_parameters j)) - int n)
                                         (int (length (j_parameters j)))]
                             in if n = 0
                                then Inr (d1\<lparr>jobs := (jobs d1)
                                            (ju \<mapsto> (if j_status j \<notin> set [SUCCESS, ABORTED, FAILURE]
                                                     then j\<lparr>j_status := SUCCESS\<rparr> else j))\<rparr>,
                                          ck1\<lparr>uk_completed := True\<rparr>, lg)
                                else Inr (d1, ck1, lg))
                          else Inr (d1, ck1, [])))
                else Inr (d1, ck, [])))"

text \<open>\<^verbatim>\<open>UpdateJobPipelineRun._collateral\<close>, on the store as found after the commit.\<close>
definition update_job_pipeline_run_collateral ::
  "env \<Rightarrow> db \<Rightarrow> update_run_kwargs \<Rightarrow> effects \<Rightarrow> error + effects" where
  "update_job_pipeline_run_collateral e d ck fx =
     and_then
       (case uk_project_uuid ck of
          Some project_uuid \<Rightarrow>
            if uk_completed ck
            then (case process_stale_environment_images e project_uuid False of
                    Some err \<Rightarrow> Inl err
                  | None \<Rightarrow> Inr (fx\<lparr>stale_image_calls :=
                                      stale_image_calls fx @ [(project_uuid, False)]\<rparr>))
            else Inr fx
        | None \<Rightarrow> Inr fx)
       (\<lambda>fx1. case uk_job_uuid ck of
                 Some job_id \<Rightarrow> delete_non_retained_pipeline_runs e job_id d fx1
               | None \<Rightarrow> Inr fx1)"

section \<open>PauseCronJob and ResumeCronJob\<close>

text \<open>\<^verbatim>\<open>PauseCronJob._transaction\<close>\<close>
definition pause_cron_job :: "uuid \<Rightarrow> db \<Rightarrow> bool \<times> db" where
  "pause_cron_job ju d =
     (case jobs d ju of
        None \<Rightarrow> (False, d)
      | Some j \<Rightarrow>
          if j_status j = STARTED \<and> schedule j \<noteq> None
          then (True, d\<lparr>jobs := (jobs d)
                         (ju \<mapsto> j\<lparr>j_status := PAUSED, next_scheduled_time := None\<rparr>)\<rparr>)
          else (False, d))"

text \<open>
  \<^verbatim>\<open>ResumeCronJob._transaction\<close>; \<open>now\<close> is \<^verbatim>\<open>datetime.now(timezone.utc)\<close>. The
  result is the new \<^verbatim>\<open>next_scheduled_time\<close>, or \<open>None\<close> for \<^verbatim>\<open>return None\<close>.
\<close>
definition resume_cron_job ::
  "env \<Rightarrow> datetime \<Rightarrow> uuid \<Rightarrow> db \<Rightarrow> error + (datetime option \<times> db)" where
  "resume_cron_job e now ju d =
     (case jobs d ju of
        None \<Rightarrow> Inr (None, d)
      | Some j \<Rightarrow>
          (case schedule j of
             None \<Rightarrow> Inr (None, d)
           | Some cron \<Rightarrow>
               if j_status j = PAUSED
               then (case croniter_get_next e cron now of
                       Inl err \<Rightarrow> Inl err
                     | Inr t \<Rightarrow>
                         Inr (Some t,
                              d\<lparr>jobs := (jobs d)
                                  (ju \<mapsto> j\<lparr>j_status := STARTED,
                                           next_scheduled_time := Some t\<rparr>)\<rparr>))
               else Inr (None, d)))"

datatype response =
    Message string nat
  | NextScheduledTime datetime nat

text \<open>\<^verbatim>\<open>CronJobPause.post\<close>: the response for the outcome of the transaction.\<close>
definition cron_job_pause_post :: "uuid \<Rightarrow> db \<Rightarrow> response" where
  "cron_job_pause_post ju d =
     (if fst (pause_cron_job ju d) then Message ''Cron job pausing was successful.'' 200
      else Message ''Could not pause cron job.'' 409)"

text \<open>\<^verbatim>\<open>CronJobResume.post\<close>: the response for the outcome of the transaction.\<close>
definition cron_job_resume_post :: "env \<Rightarrow> datetime \<Rightarrow> uuid \<Rightarrow> db \<Rightarrow> response" where
  "cron_job_resume_post e now ju d =
     (case resume_cron_job e now ju d of
        Inl err \<Rightarrow> Message ''str(e)'' 500
      | Inr (Some t, d') \<Rightarrow> NextScheduledTime t 200
      | Inr (None, d') \<Rightarrow> Message ''Could not resume cron job.'' 409)"


section \<open>Histories of a job\<close>

text \<open>
  What happens to the store over the life of a job: an invocation of \<^verbatim>\<open>RunJob\<close>
  (with the values its calls of \<^verbatim>\<open>uuid.uuid4()\<close> return), or any other committed
  transaction in between (an update of the parameters, the deletion of a run, a
  status update), given by its effect on the store.
\<close>
datatype event = Invoke "nat \<Rightarrow> uuid" | Interleave "db \<Rightarrow> db"

text \<open>
  \<^verbatim>\<open>total_scheduled_pipeline_runs\<close> and \<^verbatim>\<open>total_scheduled_executions\<close> are written
  by \<^verbatim>\<open>RunJob._transaction\<close> only: every other transaction leaves the job's two
  counters as they are.
\<close>
definition keeps_counters :: "uuid \<Rightarrow> (db \<Rightarrow> db) \<Rightarrow> bool" where
  "keeps_counters ju f \<longleftrightarrow>
     (\<forall>d. map_option total_scheduled_pipeline_runs (jobs (f d) ju)
            = map_option total_scheduled_pipeline_runs (jobs d ju) \<and>
          map_option total_scheduled_executions (jobs (f d) ju)
            = map_option total_scheduled_executions (jobs d ju))"

text \<open>
  Runs the events in order and records, for each invocation of \<^verbatim>\<open>RunJob\<close>, the job
  row it found and the run rows it added to the table. An invocation that raises ends
  the history.
\<close>
fun run_job_history ::
  "env \<Rightarrow> uuid \<Rightarrow> event list \<Rightarrow> db \<Rightarrow> error + (db \<times> (job \<times> run list) list)" where
  "run_job_history e ju [] d = Inr (d, [])"
| "run_job_history e ju (Interleave f # evs) d = run_job_history e ju evs (f d)"
| "run_job_history e ju (Invoke ids # evs) d =
     (case jobs d ju of
        None \<Rightarrow> Inl NoResultFound
      | Some j \<Rightarrow>
         (case run_job e ids ju d of
            Inl err \<Rightarrow> Inl err
          | Inr (d', ck) \<Rightarrow>
             (case run_job_history e ju evs d' of
                Inl err \<Rightarrow> Inl err
              | Inr (d'', bs) \<Rightarrow> Inr (d'', (j, drop (length (runs d)) (runs d')) # bs))))"


section \<open>Example stores\<close>

text \<open>
  An instance of the collaborators for the examples: a web server that answers every
  request with 200, a pipeline builder that returns the steps of the definition, an
  hourly cron schedule (times in microseconds), and a status updater that sets the
  status of the rows which match the filter and are still PENDING or STARTED.
\<close>
definition example_matches_run :: "(string \<times> string) list \<Rightarrow> run \<Rightarrow> bool" where
  "example_matches_run flt r \<longleftrightarrow>
     (case map_of flt ''uuid'' of None \<Rightarrow> True | Some u \<Rightarrow> r_uuid r = u) \<and>
     (case map_of flt ''job_uuid'' of None \<Rightarrow> True | Some u \<Rightarrow> job_uuid r = u)"

definition example_matches_step :: "(string \<times> string) list \<Rightarrow> step \<Rightarrow> bool" where
  "example_matches_step flt s \<longleftrightarrow>
     (case map_of flt ''run_uuid'' of None \<Rightarrow> True | Some u \<Rightarrow> run_uuid s = u) \<and>
     (case map_of flt ''step_uuid'' of None \<Rightarrow> True | Some u \<Rightarrow> step_uuid s = u)"

definition example_env :: env where
  "example_env =
     \<lparr>requests_delete = (\<lambda>history url. Inr 200),
      webserver_address = ''http://orchest-webserver'',
      send_task = (\<lambda>t. None),
      construct_pipeline =
        (\<lambda>spec pd. Inr \<lparr>p_step_uuids = map fst (pd_steps pd), p_to_dict = pd\<rparr>),
      reserved_key = ''pipeline_parameters'',
      croniter_is_valid = (\<lambda>c. c = ''0 * * * *''),
      croniter_get_next =
        (\<lambda>c now. if c = ''0 * * * *'' then Inr ((now div 3600000000 + 1) * 3600000000)
                  else Inl CroniterError),
      fromisoformat = (\<lambda>s. if s = ''1970-01-02T00:00:00'' then Inr 86400000000
                            else Inl (ValueError ''Invalid isoformat string'')),
      update_status_db_runs =
        (\<lambda>su flt rs. Inr (map (\<lambda>r. if example_matches_run flt r \<and>
                                         r_status r \<in> set [PENDING, STARTED]
                                      then r\<lparr>r_status := su_status su\<rparr> else r) rs)),
      update_status_db_steps =
        (\<lambda>su flt ss. Inr (map (\<lambda>s. if example_matches_step flt s \<and>
                                         s_status s \<in> set [PENDING, STARTED]
                                      then s\<lparr>s_status := su_status su\<rparr> else s) ss)),
      get_env_uuids_missing_image = (\<lambda>project_uuid env_uuids. []),
      are_environment_variables_valid = (\<lambda>vs. True),
      process_stale_environment_images = (\<lambda>project_uuid only_marked. None)\<rparr>"

definition example_pipeline_definition :: pipeline_definition where
  "example_pipeline_definition =
     \<lparr>pd_parameters = JDict [],
      pd_steps = [(''step-1'', \<lparr>sd_parameters = JDict [], sd_environment = ''env-1''\<rparr>)]\<rparr>"

definition example_job :: job where
  "example_job =
     \<lparr>j_uuid = ''job'',
      j_name = ''nightly'',
      j_project_uuid = ''project'',
      j_pipeline_uuid = ''pipeline'',
      j_pipeline_name = ''main'',
      schedule = None,
      j_parameters =
        [[(''pipeline_parameters'', JDict []), (''step-1'', JDict [(''n'', JInt 1)])],
         [(''step-1'', JDict [(''n'', JInt 2)])]],
      j_env_variables = [],
      j_pipeline_definition = example_pipeline_definition,
      j_pipeline_run_spec =
        \<lparr>prs_other = JNull,
         prs_run_config = \<lparr>rc_other = JNull, env_uuid_docker_id_mappings = [],
                           user_env_variables = []\<rparr>\<rparr>,
      total_scheduled_executions = 0,
      total_scheduled_pipeline_runs = 0,
      next_scheduled_time = None,
      last_scheduled_time = None,
      j_status = PENDING,
      strategy_json = JDict [],
      created_time = 0,
      max_retained_pipeline_runs = - 1,
      image_mappings = []\<rparr>"

definition example_run :: "uuid \<Rightarrow> int \<Rightarrow> status \<Rightarrow> run" where
  "example_run u i st =
     \<lparr>job_uuid = ''job'',
      r_uuid = u,
      r_pipeline_uuid = ''pipeline'',
      r_project_uuid = ''project'',
      r_status = st,
      r_parameters = [],
      job_run_index = 0,
      job_run_pipeline_run_index = i,
      pipeline_run_index = i,
      r_env_variables = []\<rparr>"

definition example_db :: "job \<Rightarrow> run list \<Rightarrow> db" where
  "example_db j rs = \<lparr>jobs = [''job'' \<mapsto> j], runs = rs, steps = []\<rparr>"

definition no_effects :: effects where
  "no_effects = \<lparr>fx_log = [], http_deletes = [], sent_tasks = [], stale_image_calls = []\<rparr>"

text \<open>
  A history: two invocations of \<^verbatim>\<open>RunJob\<close>; between them the first run is deleted
  and the parameters are replaced by a single parameter set.
\<close>
definition example_events :: "event list" where
  "example_events =
     [Invoke (\<lambda>k. if k = 0 then ''run-a'' else ''run-b''),
      Interleave (\<lambda>d. d\<lparr>runs := filter (\<lambda>r. r_uuid r \<noteq> ''run-a'') (runs d)\<rparr>),
      Interleave (\<lambda>d. d\<lparr>jobs := (\<lambda>k. map_option (\<lambda>j. j\<lparr>j_parameters := [[]]\<rparr>) (jobs d k))\<rparr>),
      Invoke (\<lambda>k. ''run-c'')]"


text \<open>
  The job of the retention example: five runs in an end state with indices 0 to 4,
  and a job row with the given counter and retention limit.
\<close>
definition five_runs :: "run list" where
  "five_runs = [example_run ''run-0'' 0 SUCCESS, example_run ''run-1'' 1 FAILURE,
      example_run ''run-2'' 2 ABORTED, example_run ''run-3'' 3 SUCCESS,
      example_run ''run-4'' 4 SUCCESS]"

definition retained_job :: "int \<Rightarrow> int \<Rightarrow> job" where
  "retained_job t m = example_job\<lparr>total_scheduled_pipeline_runs := t,
     max_retained_pipeline_runs := m, j_status := SUCCESS\<rparr>"

text \<open>
  The example collaborators with a web server that gives the same outcome to every
  deletion request, and the collateral arguments of a \<^verbatim>\<open>RunJob\<close> that created the
  run \<^verbatim>\<open>run-5\<close>.
\<close>
definition answering :: "error + int \<Rightarrow> env" where
  "answering r = example_env\<lparr>requests_delete := (\<lambda>history url. r)\<rparr>"

definition example_kwargs :: run_job_kwargs where
  "example_kwargs =
     \<lparr>ck_job = Some (retained_job 5 2), ck_run_config = None,
      ck_tasks_to_launch =
        [(''run-5'', \<lparr>p_step_uuids = [''step-1''], p_to_dict = example_pipeline_definition\<rparr>)]\<rparr>"

text \<open>The status update a worker reports for a run that finished with SUCCESS.\<close>
definition succeeded :: "string \<Rightarrow> status_update" where
  "succeeded t = \<lparr>su_status = SUCCESS, su_started_time = None, su_finished_time = Some t\<rparr>"

text \<open>A request body that holds the key \<^verbatim>\<open>parameters\<close> only.\<close>
definition only_parameters :: "run_parameters list \<Rightarrow> job_update" where
  "only_parameters ps =
     \<lparr>u_name = None, u_cron_schedule = None, u_parameters = Some ps, u_env_variables = None,
      u_next_scheduled_time = None, u_strategy_json = None,
      u_max_retained_pipeline_runs = None, u_confirm_draft = False\<rparr>"

text \<open>
  A request body with no key, and a job row that has the hourly schedule and a
  stored \<^verbatim>\<open>next_scheduled_time\<close>.
\<close>
definition empty_update :: job_update where
  "empty_update =
     \<lparr>u_name = None, u_cron_schedule = None, u_parameters = None, u_env_variables = None,
      u_next_scheduled_time = None, u_strategy_json = None,
      u_max_retained_pipeline_runs = None, u_confirm_draft = False\<rparr>"

definition cron_job_row :: "status \<Rightarrow> job" where
  "cron_job_row st = example_job\<lparr>j_status := st, schedule := Some ''0 * * * *'',
     next_scheduled_time := Some 3600000000\<rparr>"

text \<open>
  The example collaborators with a web server that answers the first deletion request
  with 200 and lets the call of every later request raise.
\<close>
definition answering_once :: env where
  "answering_once =
     example_env\<lparr>requests_delete :=
       (\<lambda>history url. if history = [] then Inr 200 else Inl RequestException)\<rparr>"

text \<open>
  What the examples read off the result of \<^verbatim>\<open>UpdateJob\<close>: the name, status, schedule,
  scheduled times and counters of the job, the uuids of the runs and of the tasks to
  launch.
\<close>
definition job_view ::
  "db \<times> run_job_kwargs option \<Rightarrow>
   (string \<times> status \<times> string option \<times> datetime option \<times> datetime option \<times> int \<times> int) option
   \<times> uuid list \<times> uuid list option" where
  "job_view r =
     (case r of (d, ck) \<Rightarrow>
        (map_option (\<lambda>j. (j_name j, j_status j, schedule j, next_scheduled_time j,
                           last_scheduled_time j, total_scheduled_executions j,
                           total_scheduled_pipeline_runs j)) (jobs d ''job''),
         map r_uuid (runs d),
         map_option (\<lambda>k. map fst (ck_tasks_to_launch k)) ck))"

section \<open>Properties of RunJob\<close>

lemma launch_runs_appends:
  "launch_runs e ids k ps j rs ss tasks = Inr (j', rs', ss', tasks') \<Longrightarrow>
   \<exists>new. rs' = rs @ new \<and> length new = length ps \<and>
     map pipeline_run_index new
       = [total_scheduled_pipeline_runs j .. total_scheduled_pipeline_runs j + int (length ps) - 1] \<and>
     (\<forall>r \<in> set new. job_run_index r = total_scheduled_executions j \<and> job_uuid r = j_uuid j
         \<and> r_status r = PENDING) \<and>
     map job_run_pipeline_run_index new = [int k .. int k + int (length ps) - 1] \<and>
     map r_uuid new = map fst (drop (length tasks) tasks') \<and>
     length tasks' = length tasks + length ps \<and> take (length tasks) tasks' = tasks \<and>
     j' = j\<lparr>total_scheduled_pipeline_runs := total_scheduled_pipeline_runs j + int (length ps)\<rparr>"
proof (induction ps arbitrary: k j rs ss tasks)
  case Nil
  then show ?case by simp
next
  case (Cons p rest)
  from Cons.prems obtain pl where
    rec: "launch_runs e ids (Suc k) rest
            (j\<lparr>total_scheduled_pipeline_runs := total_scheduled_pipeline_runs j + 1\<rparr>)
            (rs @ [\<lparr>job_uuid = j_uuid j, r_uuid = ids k, r_pipeline_uuid = j_pipeline_uuid j,
                    r_project_uuid = j_project_uuid j, r_status = PENDING, r_parameters = p,
                    job_run_index = total_scheduled_executions j,
                    job_run_pipeline_run_index = int k,
                    pipeline_run_index = total_scheduled_pipeline_runs j,
                    r_env_variables = j_env_variables j\<rparr>])
            (ss @ map (\<lambda>su. \<lparr>run_uuid = ids k, step_uuid = su, s_status = PENDING\<rparr>) (p_step_uuids pl))
            (tasks @ [(ids k, pl)]) = Inr (j', rs', ss', tasks')"
    by (auto simp: Let_def split: sum.splits)
  from Cons.IH[OF rec] obtain new where new:
    "rs' = (rs @ [\<lparr>job_uuid = j_uuid j, r_uuid = ids k, r_pipeline_uuid = j_pipeline_uuid j,
                    r_project_uuid = j_project_uuid j, r_status = PENDING, r_parameters = p,
                    job_run_index = total_scheduled_executions j,
                    job_run_pipeline_run_index = int k,
                    pipeline_run_index = total_scheduled_pipeline_runs j,
                    r_env_variables = j_env_variables j\<rparr>]) @ new"
    "length new = length rest"
    "map pipeline_run_index new
       = [total_scheduled_pipeline_runs j + 1 .. total_scheduled_pipeline_runs j + 1 + int (length rest) - 1]"
    "\<forall>r \<in> set new. job_run_index r = total_scheduled_executions j \<and> job_uuid r = j_uuid j \<and> r_status r = PENDING"
    "map job_run_pipeline_run_index new = [int (Suc k) .. int (Suc k) + int (length rest) - 1]"
    "map r_uuid new = map fst (drop (length (tasks @ [(ids k, pl)])) tasks')"
    "length tasks' = length (tasks @ [(ids k, pl)]) + length rest"
    "take (length (tasks @ [(ids k, pl)])) tasks' = tasks @ [(ids k, pl)]"
    "j' = j\<lparr>total_scheduled_pipeline_runs := total_scheduled_pipeline_runs j + 1 + int (length rest)\<rparr>"
    by auto
  let ?r0 = "\<lparr>job_uuid = j_uuid j, r_uuid = ids k, r_pipeline_uuid = j_pipeline_uuid j,
                    r_project_uuid = j_project_uuid j, r_status = PENDING, r_parameters = p,
                    job_run_index = total_scheduled_executions j,
                    job_run_pipeline_run_index = int k,
                    pipeline_run_index = total_scheduled_pipeline_runs j,
                    r_env_variables = j_env_variables j\<rparr>"
  have tk: "take (length tasks) tasks' = tasks"
    using new(8) by (metis append_eq_conv_conj length_append take_take min_def le_add1)
  have dr: "drop (length tasks) tasks' = (ids k, pl) # drop (Suc (length tasks)) tasks'"
    using new(8) new(7)
    by (metis Cons_nth_drop_Suc length_append_singleton lessI nth_append_length nth_take trans_less_add1)
  show ?case
    apply (rule exI[of _ "?r0 # new"])
    using new tk dr
    by (simp add: upto_rec1[of "total_scheduled_pipeline_runs j"] upto_rec1[of "int k"] add.commute add.left_commute)
qed


lemma upto_append_next:
  fixes i j k :: int
  assumes "i \<le> j" and "j \<le> k + 1"
  shows "[i..k] = [i..j - 1] @ [j..k]"
proof (cases "j \<le> k")
  case True
  with assms show ?thesis by (rule_tac upto_split1) auto
next
  case False
  with assms have "j = k + 1" by simp
  then show ?thesis by simp
qed

lemma run_job_step:
  assumes "run_job e ids ju d = Inr (d', ck)" and "jobs d ju = Some j"
  shows "\<exists>j' new. jobs d' ju = Some j' \<and> runs d' = runs d @ new \<and>
     length new = length (j_parameters j) \<and>
     total_scheduled_pipeline_runs j'
       = total_scheduled_pipeline_runs j + int (length (j_parameters j)) \<and>
     total_scheduled_executions j' = total_scheduled_executions j + 1 \<and>
     map pipeline_run_index new
       = [total_scheduled_pipeline_runs j ..
          total_scheduled_pipeline_runs j + int (length (j_parameters j)) - 1] \<and>
     (\<forall>r \<in> set new. job_run_index r = total_scheduled_executions j) \<and>
     map r_uuid new = map fst (ck_tasks_to_launch ck)"
proof -
  let ?j1 = "if j_status j = PENDING then j\<lparr>j_status := STARTED\<rparr> else j"
  from assms obtain j2 rs ss tasks where
    lr: "launch_runs e ids 0 (j_parameters ?j1) ?j1 (runs d) (steps d) [] = Inr (j2, rs, ss, tasks)"
    and d': "d' = d\<lparr>jobs := (jobs d)(ju \<mapsto> j2\<lparr>total_scheduled_executions :=
                         total_scheduled_executions j2 + 1\<rparr>), runs := rs, steps := ss\<rparr>"
    and ck: "ck_tasks_to_launch ck = tasks"
    by (auto simp: run_job_def Let_def split: sum.splits if_splits)
  from launch_runs_appends[OF lr] obtain new where new:
    "rs = runs d @ new" "length new = length (j_parameters ?j1)"
    "map pipeline_run_index new
       = [total_scheduled_pipeline_runs ?j1 ..
          total_scheduled_pipeline_runs ?j1 + int (length (j_parameters ?j1)) - 1]"
    "\<forall>r \<in> set new. job_run_index r = total_scheduled_executions ?j1"
    "map r_uuid new = map fst tasks"
    "j2 = ?j1\<lparr>total_scheduled_pipeline_runs :=
               total_scheduled_pipeline_runs ?j1 + int (length (j_parameters ?j1))\<rparr>"
    by auto
  show ?thesis
    apply (rule exI[of _ "j2\<lparr>total_scheduled_executions := total_scheduled_executions j2 + 1\<rparr>"])
    apply (rule exI[of _ new])
    using new d' ck by (auto split: if_splits)
qed

lemma run_job_history_counters:
  assumes "run_job_history e ju evs d0 = Inr (d, bs)"
    and "jobs d0 ju = Some j0"
    and "\<forall>f. Interleave f \<in> set evs \<longrightarrow> keeps_counters ju f"
  shows "\<exists>j. jobs d ju = Some j \<and>
     total_scheduled_pipeline_runs j
       = total_scheduled_pipeline_runs j0
           + int (sum_list (map (\<lambda>b. length (j_parameters (fst b))) bs)) \<and>
     map pipeline_run_index (concat (map snd bs))
       = [total_scheduled_pipeline_runs j0 .. total_scheduled_pipeline_runs j - 1] \<and>
     total_scheduled_executions j = total_scheduled_executions j0 + int (length bs) \<and>
     map (\<lambda>b. total_scheduled_executions (fst b)) bs
       = [total_scheduled_executions j0 .. total_scheduled_executions j - 1] \<and>
     (\<forall>b \<in> set bs. length (snd b) = length (j_parameters (fst b)) \<and>
        (\<forall>r \<in> set (snd b). job_run_index r = total_scheduled_executions (fst b)))"
  using assms
proof (induction e ju evs d0 arbitrary: j0 bs rule: run_job_history.induct)
  case (1 e ju d0)
  then show ?case by auto
next
  case (2 e ju f evs d0)
  from "2.prems"(3) have kc: "keeps_counters ju f" by simp
  from kc have eqs:
    "map_option total_scheduled_pipeline_runs (jobs (f d0) ju)
       = map_option total_scheduled_pipeline_runs (jobs d0 ju)"
    "map_option total_scheduled_executions (jobs (f d0) ju)
       = map_option total_scheduled_executions (jobs d0 ju)"
    unfolding keeps_counters_def by blast+
  from eqs "2.prems"(2) obtain j1 where j1: "jobs (f d0) ju = Some j1"
    "total_scheduled_pipeline_runs j1 = total_scheduled_pipeline_runs j0"
    "total_scheduled_executions j1 = total_scheduled_executions j0"
    by (cases "jobs (f d0) ju") auto
  have "run_job_history e ju evs (f d0) = Inr (d, bs)" using "2.prems"(1) by simp
  from "2.IH"[OF this j1(1)] "2.prems"(3) j1(2,3) show ?case by simp
next
  case (3 e ju ids evs d0)
  from "3.prems"(1,2) obtain d1 ck bs' where
    rj: "run_job e ids ju d0 = Inr (d1, ck)"
    and h: "run_job_history e ju evs d1 = Inr (d, bs')"
    and bs: "bs = (j0, drop (length (runs d0)) (runs d1)) # bs'"
    by (auto split: sum.splits)
  from run_job_step[OF rj "3.prems"(2)] obtain j1 new where st:
    "jobs d1 ju = Some j1" "runs d1 = runs d0 @ new"
    "length new = length (j_parameters j0)"
    "total_scheduled_pipeline_runs j1
       = total_scheduled_pipeline_runs j0 + int (length (j_parameters j0))"
    "total_scheduled_executions j1 = total_scheduled_executions j0 + 1"
    "map pipeline_run_index new
       = [total_scheduled_pipeline_runs j0 ..
          total_scheduled_pipeline_runs j0 + int (length (j_parameters j0)) - 1]"
    "\<forall>r \<in> set new. job_run_index r = total_scheduled_executions j0"
    by blast
  have kc: "\<forall>f. Interleave f \<in> set evs \<longrightarrow> keeps_counters ju f" using "3.prems"(3) by simp
  from "3.IH"[OF "3.prems"(2) rj refl h st(1) kc] obtain j where j:
    "jobs d ju = Some j"
    "total_scheduled_pipeline_runs j
       = total_scheduled_pipeline_runs j1
           + int (sum_list (map (\<lambda>b. length (j_parameters (fst b))) bs'))"
    "map pipeline_run_index (concat (map snd bs'))
       = [total_scheduled_pipeline_runs j1 .. total_scheduled_pipeline_runs j - 1]"
    "total_scheduled_executions j = total_scheduled_executions j1 + int (length bs')"
    "map (\<lambda>b. total_scheduled_executions (fst b)) bs'
       = [total_scheduled_executions j1 .. total_scheduled_executions j - 1]"
    "\<forall>b \<in> set bs'. length (snd b) = length (j_parameters (fst b)) \<and>
        (\<forall>r \<in> set (snd b). job_run_index r = total_scheduled_executions (fst b))"
    by blast
  have new: "drop (length (runs d0)) (runs d1) = new" using st(2) by simp
  have idx: "[total_scheduled_pipeline_runs j0 .. total_scheduled_pipeline_runs j - 1]
      = [total_scheduled_pipeline_runs j0 .. total_scheduled_pipeline_runs j1 - 1]
        @ [total_scheduled_pipeline_runs j1 .. total_scheduled_pipeline_runs j - 1]"
    using st(4) j(2) by (intro upto_append_next) auto
  have ex: "[total_scheduled_executions j0 .. total_scheduled_executions j - 1]
      = total_scheduled_executions j0 # [total_scheduled_executions j1 .. total_scheduled_executions j - 1]"
    using st(5) j(4) by (subst upto_rec1) auto
  show ?case
    apply (rule exI[of _ j])
    using j st bs new idx ex by (simp add: algebra_simps)
qed


text \<open>
  Claim C1. Take a job whose \<^verbatim>\<open>total_scheduled_pipeline_runs\<close> is 0, as it is when the
  job is created, and any history of the store in which every invocation of
  \<^verbatim>\<open>RunJob\<close> on the job commits and the transactions in between (deletions of runs and
  changes of the parameters among them) leave the two counters alone. Then
  \<^verbatim>\<open>total_scheduled_pipeline_runs\<close> is the sum, over the invocations, of the number of
  parameter sets the invocation found; the \<^verbatim>\<open>pipeline_run_index\<close> values of the runs
  created, in creation order, are exactly 0, 1, ..., total - 1, whether or not the rows
  still exist; every run's \<^verbatim>\<open>job_run_index\<close> is the \<^verbatim>\<open>total_scheduled_executions\<close> its
  invocation found, and that counter grows by one per invocation.
\<close>
theorem run_job_indices_dense:
  assumes "run_job_history e ju evs d0 = Inr (d, bs)"
    and "jobs d0 ju = Some j0"
    and "total_scheduled_pipeline_runs j0 = 0"
    and "\<forall>f. Interleave f \<in> set evs \<longrightarrow> keeps_counters ju f"
  shows "\<exists>j. jobs d ju = Some j \<and>
     total_scheduled_pipeline_runs j
       = int (sum_list (map (\<lambda>b. length (j_parameters (fst b))) bs)) \<and>
     map pipeline_run_index (concat (map snd bs))
       = [0 .. total_scheduled_pipeline_runs j - 1] \<and>
     total_scheduled_executions j = total_scheduled_executions j0 + int (length bs) \<and>
     map (\<lambda>b. total_scheduled_executions (fst b)) bs
       = [total_scheduled_executions j0 .. total_scheduled_executions j - 1] \<and>
     (\<forall>b \<in> set bs. length (snd b) = length (j_parameters (fst b)) \<and>
        (\<forall>r \<in> set (snd b). job_run_index r = total_scheduled_executions (fst b)))"
  using run_job_history_counters[OF assms(1,2,4)] assms(3) by simp

text \<open>The definitions an example is evaluated with.\<close>
lemmas example_defs = example_events_def example_db_def example_job_def example_env_def
  example_pipeline_definition_def run_job_def Let_def

theorem run_job_indices_dense_witness:
  "\<exists>d bs j. run_job_history example_env ''job'' example_events (example_db example_job [])
              = Inr (d, bs) \<and>
     jobs d ''job'' = Some j \<and>
     total_scheduled_pipeline_runs j = 3 \<and>
     map pipeline_run_index (concat (map snd bs)) = [0, 1, 2] \<and>
     map pipeline_run_index (runs d) = [1, 2] \<and>
     total_scheduled_executions j = 2 \<and>
     map (\<lambda>b. map job_run_index (snd b)) bs = [[0, 0], [1]]"
proof -
  obtain d bs where h:
    "run_job_history example_env ''job'' example_events (example_db example_job []) = Inr (d, bs)"
    by (simp add: example_defs)
  have j0: "jobs (example_db example_job []) ''job'' = Some example_job"
    by (simp add: example_db_def)
  have t0: "total_scheduled_pipeline_runs example_job = 0"
    by (simp add: example_job_def)
  have kc: "\<forall>f. Interleave f \<in> set example_events \<longrightarrow> keeps_counters ''job'' f"
    by (auto simp: example_events_def keeps_counters_def option.map_comp comp_def)
  from run_job_indices_dense[OF h j0 t0 kc] obtain j where j:
    "jobs d ''job'' = Some j"
    "total_scheduled_pipeline_runs j
       = int (sum_list (map (\<lambda>b. length (j_parameters (fst b))) bs))"
    "map pipeline_run_index (concat (map snd bs)) = [0 .. total_scheduled_pipeline_runs j - 1]"
    "total_scheduled_executions j = total_scheduled_executions example_job + int (length bs)"
    by blast
  have v: "map (\<lambda>b. length (j_parameters (fst b))) bs = [2, 1]"
    "map (\<lambda>b. map job_run_index (snd b)) bs = [[0, 0], [1]]"
    "map pipeline_run_index (runs d) = [1, 2]"
    using h by (auto simp: example_defs)
  have l: "length bs = 2" using v(1) by (metis length_map length_Cons list.size(3) One_nat_def Suc_1)
  have u: "[0 .. (2::int)] = [0, 1, 2]" by (simp add: upto_rec1)
  show ?thesis
    using h j v l u by (simp add: example_job_def)
qed

text \<open>
  Claim C2. The claim says that \<^verbatim>\<open>RunJob\<close> on an ABORTED job creates no rows, leaves
  the counters alone and hands an empty batch to the collateral phase. The ABORTED
  branch of the source has no \<^verbatim>\<open>return\<close>: on an ABORTED job with one parameter set
  the transaction creates the run \<^verbatim>\<open>run-a\<close>, raises both counters to 1 and hands the
  task \<^verbatim>\<open>run-a\<close> to the collateral phase, which sends it to celery.
\<close>
theorem run_job_on_aborted_job_launches:
  "map_sum id (\<lambda>(d, ck).
       (map r_uuid (runs d), map fst (ck_tasks_to_launch ck),
        map_option (\<lambda>j. (j_status j, total_scheduled_pipeline_runs j,
                           total_scheduled_executions j)) (jobs d ''job''),
        map_sum id (\<lambda>fx. map task_id (sent_tasks fx))
          (run_job_collateral example_env d ck no_effects)))
     (run_job example_env (\<lambda>k. ''run-a'') ''job''
        (example_db (example_job\<lparr>j_status := ABORTED, j_parameters := [[]]\<rparr>) []))
   = Inr ([''run-a''], [''run-a''], Some (ABORTED, 1, 1), Inr [''run-a''])"
  by (simp add: example_defs run_job_collateral_def delete_non_retained_pipeline_runs_def
      no_effects_def)


section \<open>Properties of retention pruning\<close>

lemma delete_runs_requests:
  "delete_runs e ju us fx = Inr fx' \<Longrightarrow>
     http_deletes fx' = http_deletes fx @ map (cleanup_url e ju) us"
proof (induction us arbitrary: fx)
  case Nil
  then show ?case by simp
next
  case (Cons ru rest)
  then show ?case
    by (auto simp: Let_def split: sum.splits)
qed

lemma delete_runs_returns:
  assumes "\<forall>h u. \<exists>c. requests_delete e h u = Inr c"
  shows "\<exists>fx'. delete_runs e ju us fx = Inr fx'"
proof (induction us arbitrary: fx)
  case Nil
  show ?case by simp
next
  case (Cons ru rest)
  obtain c where c: "requests_delete e (http_deletes fx) (cleanup_url e ju ru) = Inr c"
    using assms by blast
  show ?case
    using Cons.IH c by (simp add: Let_def)
qed

lemma pruning_returns:
  assumes "\<forall>h u. \<exists>c. requests_delete e h u = Inr c" and "jobs d ju = Some j"
  shows "\<exists>fx'. delete_non_retained_pipeline_runs e ju d fx = Inr fx'"
  using assms(2) delete_runs_returns[OF assms(1)]
  by (simp add: delete_non_retained_pipeline_runs_def Let_def)

lemma pruning_requests:
  assumes "jobs d ju = Some j" and "0 \<le> max_retained_pipeline_runs j"
    and "delete_non_retained_pipeline_runs e ju d fx = Inr fx'"
  shows "http_deletes fx' = http_deletes fx @
           map (\<lambda>r. cleanup_url e ju (r_uuid r)) (filter (out_of_retention ju j) (runs d))"
  using assms delete_runs_requests[of e ju "runs_to_be_deleted ju j (runs d)"
      "fx\<lparr>fx_log := fx_log fx @ [Info_DeletingNonRetained ju (max_retained_pipeline_runs j)]\<rparr>" fx']
  by (simp add: delete_non_retained_pipeline_runs_def Let_def runs_to_be_deleted_def comp_def)

text \<open>
  Claim C4. With \<^verbatim>\<open>max_retained_pipeline_runs < 0\<close> pruning only writes its two log
  lines and issues no request. Otherwise the requests it issues are those for exactly
  the runs of the job that are in an end state (SUCCESS, FAILURE or ABORTED) and whose
  \<^verbatim>\<open>pipeline_run_index\<close> is at most
  \<^verbatim>\<open>(total_scheduled_pipeline_runs - 1) - max_retained_pipeline_runs\<close>, and it returns
  when every request is answered. The witness is the example of the specification:
  limit 2 and five completed runs 0 to 4 give requests for the runs 0, 1 and 2 only.
\<close>
theorem retention_pruning_selection:
  assumes "jobs d ju = Some j"
  shows "(max_retained_pipeline_runs j < 0 \<longrightarrow>
            delete_non_retained_pipeline_runs e ju d fx
              = Inr (fx\<lparr>fx_log := fx_log fx @
                      [Info_DeletingNonRetained ju (max_retained_pipeline_runs j),
                       Info_NothingToDo]\<rparr>)) \<and>
         (0 \<le> max_retained_pipeline_runs j \<longrightarrow>
            (\<forall>fx'. delete_non_retained_pipeline_runs e ju d fx = Inr fx' \<longrightarrow>
               http_deletes fx' = http_deletes fx @
                 map (\<lambda>r. cleanup_url e ju (r_uuid r))
                   (filter (\<lambda>r. job_uuid r = ju \<and>
                        (r_status r = SUCCESS \<or> r_status r = FAILURE \<or> r_status r = ABORTED) \<and>
                        pipeline_run_index r
                          \<le> (total_scheduled_pipeline_runs j - 1) - max_retained_pipeline_runs j)
                      (runs d)))) \<and>
         (0 \<le> max_retained_pipeline_runs j \<and> (\<forall>h u. \<exists>c. requests_delete e h u = Inr c) \<longrightarrow>
            (\<exists>fx'. delete_non_retained_pipeline_runs e ju d fx = Inr fx'))"
proof (intro conjI impI allI)
  assume "max_retained_pipeline_runs j < 0"
  with assms show "delete_non_retained_pipeline_runs e ju d fx
      = Inr (fx\<lparr>fx_log := fx_log fx @
              [Info_DeletingNonRetained ju (max_retained_pipeline_runs j), Info_NothingToDo]\<rparr>)"
    by (simp add: delete_non_retained_pipeline_runs_def Let_def)
next
  fix fx'
  assume m: "0 \<le> max_retained_pipeline_runs j"
    and r: "delete_non_retained_pipeline_runs e ju d fx = Inr fx'"
  have "out_of_retention ju j = (\<lambda>r. job_uuid r = ju \<and>
          (r_status r = SUCCESS \<or> r_status r = FAILURE \<or> r_status r = ABORTED) \<and>
          pipeline_run_index r
            \<le> (total_scheduled_pipeline_runs j - 1) - max_retained_pipeline_runs j)"
    by (auto simp: out_of_retention_def fun_eq_iff)
  with pruning_requests[OF assms m r]
  show "http_deletes fx' = http_deletes fx @
          map (\<lambda>r. cleanup_url e ju (r_uuid r))
            (filter (\<lambda>r. job_uuid r = ju \<and>
                 (r_status r = SUCCESS \<or> r_status r = FAILURE \<or> r_status r = ABORTED) \<and>
                 pipeline_run_index r
                   \<le> (total_scheduled_pipeline_runs j - 1) - max_retained_pipeline_runs j)
               (runs d))"
    by simp
next
  assume "0 \<le> max_retained_pipeline_runs j \<and> (\<forall>h u. \<exists>c. requests_delete e h u = Inr c)"
  then show "\<exists>fx'. delete_non_retained_pipeline_runs e ju d fx = Inr fx'"
    using pruning_returns[OF _ assms] by blast
qed


theorem retention_pruning_selection_witness:
  "map_sum id http_deletes
     (delete_non_retained_pipeline_runs example_env ''job''
        (example_db (retained_job 5 2) five_runs) no_effects)
     = Inr [''http://orchest-webserver/catch/api-proxy/api/jobs/cleanup/job/run-0'',
            ''http://orchest-webserver/catch/api-proxy/api/jobs/cleanup/job/run-1'',
            ''http://orchest-webserver/catch/api-proxy/api/jobs/cleanup/job/run-2''] \<and>
   map_sum id http_deletes
     (delete_non_retained_pipeline_runs example_env ''job''
        (example_db (retained_job 5 (- 1)) five_runs) no_effects)
     = Inr []"
proof -
  let ?d = "example_db (retained_job 5 2) five_runs"
  let ?d' = "example_db (retained_job 5 (- 1)) five_runs"
  have j: "jobs ?d ''job'' = Some (retained_job 5 2)"
    and j': "jobs ?d' ''job'' = Some (retained_job 5 (- 1))"
    by (simp_all add: example_db_def)
  have m: "0 \<le> max_retained_pipeline_runs (retained_job 5 2)"
    and m': "max_retained_pipeline_runs (retained_job 5 (- 1)) < 0"
    by (simp_all add: retained_job_def)
  have resp: "\<forall>h u. \<exists>c. requests_delete example_env h u = Inr c"
    by (simp add: example_env_def)
  note t = retention_pruning_selection[OF j, of example_env no_effects]
  note t' = retention_pruning_selection[OF j', of example_env no_effects]
  from t m resp obtain fx' where
    fx': "delete_non_retained_pipeline_runs example_env ''job'' ?d no_effects = Inr fx'"
    by blast
  with t m have "http_deletes fx' = http_deletes no_effects @
      map (\<lambda>r. cleanup_url example_env ''job'' (r_uuid r))
        (filter (\<lambda>r. job_uuid r = ''job'' \<and>
             (r_status r = SUCCESS \<or> r_status r = FAILURE \<or> r_status r = ABORTED) \<and>
             pipeline_run_index r
               \<le> (total_scheduled_pipeline_runs (retained_job 5 2) - 1)
                   - max_retained_pipeline_runs (retained_job 5 2))
           (runs ?d))"
    by blast
  then have a: "http_deletes fx'
      = [''http://orchest-webserver/catch/api-proxy/api/jobs/cleanup/job/run-0'',
         ''http://orchest-webserver/catch/api-proxy/api/jobs/cleanup/job/run-1'',
         ''http://orchest-webserver/catch/api-proxy/api/jobs/cleanup/job/run-2'']"
    by (simp add: example_db_def retained_job_def five_runs_def example_run_def
        example_job_def no_effects_def cleanup_url_def example_env_def)
  from t' m' have b: "delete_non_retained_pipeline_runs example_env ''job'' ?d' no_effects
      = Inr (no_effects\<lparr>fx_log := fx_log no_effects @
              [Info_DeletingNonRetained ''job'' (max_retained_pipeline_runs (retained_job 5 (- 1))),
               Info_NothingToDo]\<rparr>)"
    by blast
  show ?thesis using fx' a b by (simp add: no_effects_def)
qed

text \<open>
  Counterexample to claim C5 as stated. The query of \<^verbatim>\<open>runs_to_be_deleted\<close> has no \<^verbatim>\<open>ORDER BY\<close>: when the store returns the
  row of index 1 before the row of index 0, the request for run 1 is issued first.
\<close>
theorem pruning_order_counterexample:
  "map_sum id http_deletes
     (delete_non_retained_pipeline_runs example_env ''job''
        (example_db (retained_job 2 0)
           [example_run ''run-1'' 1 SUCCESS, example_run ''run-0'' 0 SUCCESS]) no_effects)
     = Inr [''http://orchest-webserver/catch/api-proxy/api/jobs/cleanup/job/run-1'',
            ''http://orchest-webserver/catch/api-proxy/api/jobs/cleanup/job/run-0''] \<and>
   map pipeline_run_index
     (filter (out_of_retention ''job'' (retained_job 2 0))
        [example_run ''run-1'' 1 SUCCESS, example_run ''run-0'' 0 SUCCESS]) = [1, 0]"
  by (simp add: delete_non_retained_pipeline_runs_def example_db_def retained_job_def
      example_job_def example_run_def runs_to_be_deleted_def out_of_retention_def
      cleanup_url_def example_env_def no_effects_def Let_def)

text \<open>
  Claim C5, as amended. Within one invocation the deletion requests are issued for the
  eligible runs in the order in which the store returns their rows. That order is
  ascending in \<^verbatim>\<open>pipeline_run_index\<close> when the store returns the runs of the job in
  ascending index order, and no run whose index is above the threshold is requested.
\<close>
theorem pruning_request_order:
  assumes "jobs d ju = Some j" and "0 \<le> max_retained_pipeline_runs j"
    and "delete_non_retained_pipeline_runs e ju d fx = Inr fx'"
  shows "http_deletes fx' = http_deletes fx @
           map (\<lambda>r. cleanup_url e ju (r_uuid r)) (filter (out_of_retention ju j) (runs d)) \<and>
         (sorted (map pipeline_run_index (filter (\<lambda>r. job_uuid r = ju) (runs d))) \<longrightarrow>
            sorted (map pipeline_run_index (filter (out_of_retention ju j) (runs d)))) \<and>
         (\<forall>r \<in> set (filter (out_of_retention ju j) (runs d)).
            pipeline_run_index r
              \<le> (total_scheduled_pipeline_runs j - 1) - max_retained_pipeline_runs j)"
proof (intro conjI impI)
  show "http_deletes fx' = http_deletes fx @
      map (\<lambda>r. cleanup_url e ju (r_uuid r)) (filter (out_of_retention ju j) (runs d))"
    by (rule pruning_requests[OF assms])
next
  assume s: "sorted (map pipeline_run_index (filter (\<lambda>r. job_uuid r = ju) (runs d)))"
  have "filter (out_of_retention ju j) (runs d)
      = filter (out_of_retention ju j) (filter (\<lambda>r. job_uuid r = ju) (runs d))"
    by (auto simp: out_of_retention_def intro: filter_cong)
  with sorted_filter[OF s, of "out_of_retention ju j"]
  show "sorted (map pipeline_run_index (filter (out_of_retention ju j) (runs d)))"
    by simp
next
  show "\<forall>r \<in> set (filter (out_of_retention ju j) (runs d)).
      pipeline_run_index r \<le> (total_scheduled_pipeline_runs j - 1) - max_retained_pipeline_runs j"
    by (simp add: out_of_retention_def)
qed

theorem pruning_request_order_witness:
  "map_sum id http_deletes
     (delete_non_retained_pipeline_runs example_env ''job''
        (example_db (retained_job 5 1) five_runs) no_effects)
     = Inr (map (\<lambda>r. cleanup_url example_env ''job'' (r_uuid r))
              (filter (out_of_retention ''job'' (retained_job 5 1)) five_runs)) \<and>
   map pipeline_run_index (filter (out_of_retention ''job'' (retained_job 5 1)) five_runs)
     = [0, 1, 2, 3] \<and>
   sorted (map pipeline_run_index (filter (\<lambda>r. job_uuid r = ''job'') five_runs)) \<and>
   sorted (map pipeline_run_index (filter (out_of_retention ''job'' (retained_job 5 1)) five_runs))"
proof -
  let ?d = "example_db (retained_job 5 1) five_runs"
  have j: "jobs ?d ''job'' = Some (retained_job 5 1)"
    by (simp add: example_db_def)
  have m: "0 \<le> max_retained_pipeline_runs (retained_job 5 1)"
    by (simp add: retained_job_def)
  obtain fx' where
    fx': "delete_non_retained_pipeline_runs example_env ''job'' ?d no_effects = Inr fx'"
    using pruning_returns[OF _ j, of example_env no_effects] by (auto simp: example_env_def)
  have s: "sorted (map pipeline_run_index (filter (\<lambda>r. job_uuid r = ''job'') (runs ?d)))"
    by (simp add: example_db_def five_runs_def example_run_def)
  have v: "map pipeline_run_index (filter (out_of_retention ''job'' (retained_job 5 1)) five_runs)
      = [0, 1, 2, 3]"
    by (simp add: out_of_retention_def retained_job_def five_runs_def example_run_def
        example_job_def)
  have r: "runs ?d = five_runs" by (simp add: example_db_def)
  from pruning_request_order[OF j m fx'] s
  show ?thesis using fx' v by (simp add: no_effects_def r)
qed

text \<open>
  Counterexample to claim C9 as stated. \<^verbatim>\<open>requests.delete\<close> is called outside any \<^verbatim>\<open>try\<close>: when the call itself raises,
  the exception leaves pruning and the collateral phase that called it.
\<close>
theorem pruning_call_exception_counterexample:
  "delete_non_retained_pipeline_runs (answering (Inl RequestException)) ''job''
     (example_db (retained_job 5 2) five_runs) no_effects = Inl RequestException \<and>
   run_job_collateral (answering (Inl RequestException))
     (example_db (retained_job 5 2) five_runs) example_kwargs no_effects
     = Inl RequestException \<and>
   update_job_pipeline_run_collateral (answering (Inl RequestException))
     (example_db (retained_job 5 2) five_runs)
     \<lparr>uk_project_uuid = Some ''project'', uk_job_uuid = Some ''job'', uk_completed = False\<rparr>
     no_effects = Inl RequestException"
  by (simp add: delete_non_retained_pipeline_runs_def example_db_def retained_job_def
      example_job_def example_run_def runs_to_be_deleted_def out_of_retention_def
      cleanup_url_def example_env_def no_effects_def Let_def answering_def five_runs_def
      run_job_collateral_def update_job_pipeline_run_collateral_def and_then_def
      example_kwargs_def)

lemma delete_runs_append:
  "delete_runs e ju (xs @ ys) fx
     = (case delete_runs e ju xs fx of Inl err \<Rightarrow> Inl err | Inr fx1 \<Rightarrow> delete_runs e ju ys fx1)"
  by (induction xs arbitrary: fx) (auto simp: Let_def split: sum.splits)

lemma delete_runs_prefix_returns:
  assumes "\<forall>i < length pre. \<exists>c.
      requests_delete e (H @ map (cleanup_url e ju) (take i pre)) (cleanup_url e ju (pre ! i))
        = Inr c"
    and "http_deletes fx = H"
  shows "\<exists>fx1. delete_runs e ju pre fx = Inr fx1 \<and>
     http_deletes fx1 = H @ map (cleanup_url e ju) pre"
  using assms
proof (induction pre arbitrary: fx H)
  case Nil
  then show ?case by simp
next
  case (Cons p ps)
  from Cons.prems(1) have "\<exists>c. requests_delete e (H @ map (cleanup_url e ju) (take 0 (p # ps)))
      (cleanup_url e ju ((p # ps) ! 0)) = Inr c"
    by blast
  then obtain c where c: "requests_delete e H (cleanup_url e ju p) = Inr c" by auto
  let ?fx = "fx\<lparr>fx_log := fx_log fx @ [Info_DeletingRun p],
      http_deletes := http_deletes fx @ [cleanup_url e ju p],
      fx_log := (fx_log fx @ [Info_DeletingRun p]) @
        [if c \<notin> set [200, 404] then Error_UnexpectedStatusCode c p
         else Info_SuccessfullyDeleted p]\<rparr>"
  have step: "delete_runs e ju (p # ps) fx = delete_runs e ju ps ?fx"
    using c Cons.prems(2) by (simp add: Let_def)
  have h: "http_deletes ?fx = H @ [cleanup_url e ju p]" using Cons.prems(2) by simp
  have rest: "\<forall>i < length ps. \<exists>c.
      requests_delete e ((H @ [cleanup_url e ju p]) @ map (cleanup_url e ju) (take i ps))
        (cleanup_url e ju (ps ! i)) = Inr c"
  proof (intro allI impI)
    fix i assume "i < length ps"
    then have "Suc i < length (p # ps)" by simp
    with Cons.prems(1) have "\<exists>c. requests_delete e
        (H @ map (cleanup_url e ju) (take (Suc i) (p # ps)))
        (cleanup_url e ju ((p # ps) ! Suc i)) = Inr c"
      by blast
    then show "\<exists>c. requests_delete e
        ((H @ [cleanup_url e ju p]) @ map (cleanup_url e ju) (take i ps))
        (cleanup_url e ju (ps ! i)) = Inr c"
      by simp
  qed
  from Cons.IH[OF rest h] step show ?case by simp
qed

lemma delete_runs_propagates:
  assumes "\<forall>i < length pre. \<exists>c.
      requests_delete e (H @ map (cleanup_url e ju) (take i pre)) (cleanup_url e ju (pre ! i))
        = Inr c"
    and "requests_delete e (H @ map (cleanup_url e ju) pre) (cleanup_url e ju ru) = Inl err"
    and "http_deletes fx = H"
  shows "delete_runs e ju (pre @ ru # rest) fx = Inl err"
proof -
  from delete_runs_prefix_returns[OF assms(1,3)] obtain fx1 where
    fx1: "delete_runs e ju pre fx = Inr fx1" "http_deletes fx1 = H @ map (cleanup_url e ju) pre"
    by blast
  have "delete_runs e ju (ru # rest) fx1 = Inl err"
    using assms(2) fx1(2) by (simp add: Let_def)
  with fx1(1) show ?thesis by (simp add: delete_runs_append)
qed

lemma pruning_propagates:
  assumes "jobs d ju = Some j" and "0 \<le> max_retained_pipeline_runs j"
    and "runs_to_be_deleted ju j (runs d) = pre @ ru # rest"
    and "\<forall>i < length pre. \<exists>c.
      requests_delete e (H @ map (cleanup_url e ju) (take i pre)) (cleanup_url e ju (pre ! i))
        = Inr c"
    and "requests_delete e (H @ map (cleanup_url e ju) pre) (cleanup_url e ju ru) = Inl err"
    and "http_deletes fx = H"
  shows "delete_non_retained_pipeline_runs e ju d fx = Inl err"
proof -
  let ?fx1 = "fx\<lparr>fx_log := fx_log fx @
      [Info_DeletingNonRetained ju (max_retained_pipeline_runs j)]\<rparr>"
  have "http_deletes ?fx1 = H" using assms(6) by simp
  from delete_runs_propagates[OF assms(4,5) this, of rest]
  show ?thesis
    using assms(1,2,3) by (simp add: delete_non_retained_pipeline_runs_def Let_def)
qed


text \<open>
  Claim C9, as amended. When every deletion call returns a response, whatever its
  status code, pruning returns normally, the collateral phase of \<^verbatim>\<open>RunJob\<close> goes on
  to send its tasks and the collateral phase of \<^verbatim>\<open>UpdateJobPipelineRun\<close> returns
  normally. After each response the loop goes on to the next run, having logged
  success for 200 and 404 and an error for any other code. When the calls for the
  first runs return responses and the call for the next run raises, that exception is
  the outcome of pruning, of the collateral phase of \<^verbatim>\<open>RunJob\<close> and of the collateral
  phase of \<^verbatim>\<open>UpdateJobPipelineRun\<close>.
\<close>
theorem pruning_outcomes:
  assumes "jobs d ju = Some j"
  shows
   "((\<forall>h u. \<exists>c. requests_delete e h u = Inr c) \<longrightarrow>
       (\<exists>fx'. delete_non_retained_pipeline_runs e ju d fx = Inr fx') \<and>
       (\<forall>ck j'. ck_job ck = Some j' \<and> j_uuid j' = ju \<and> ck_tasks_to_launch ck \<noteq> [] \<longrightarrow>
          (\<exists>fx1. delete_non_retained_pipeline_runs e ju d fx = Inr fx1 \<and>
             run_job_collateral e d ck fx
               = launch_tasks e j' (ck_run_config ck) (ck_tasks_to_launch ck) fx1)) \<and>
       (\<forall>ck. uk_job_uuid ck = Some ju \<and>
           (\<forall>p. uk_project_uuid ck = Some p \<and> uk_completed ck \<longrightarrow>
              process_stale_environment_images e p False = None) \<longrightarrow>
          (\<exists>fx'. update_job_pipeline_run_collateral e d ck fx = Inr fx'))) \<and>
    (\<forall>ru rest c. requests_delete e (http_deletes fx) (cleanup_url e ju ru) = Inr c \<longrightarrow>
       delete_runs e ju (ru # rest) fx
         = delete_runs e ju rest
             (fx\<lparr>http_deletes := http_deletes fx @ [cleanup_url e ju ru],
                 fx_log := fx_log fx @
                   [Info_DeletingRun ru,
                    if c = 200 \<or> c = 404 then Info_SuccessfullyDeleted ru
                    else Error_UnexpectedStatusCode c ru]\<rparr>)) \<and>
    (\<forall>pre ru rest err.
       0 \<le> max_retained_pipeline_runs j \<and>
       runs_to_be_deleted ju j (runs d) = pre @ ru # rest \<and>
       (\<forall>i < length pre. \<exists>c.
          requests_delete e (http_deletes fx @ map (cleanup_url e ju) (take i pre))
            (cleanup_url e ju (pre ! i)) = Inr c) \<and>
       requests_delete e (http_deletes fx @ map (cleanup_url e ju) pre) (cleanup_url e ju ru)
         = Inl err \<longrightarrow>
       delete_non_retained_pipeline_runs e ju d fx = Inl err \<and>
       (\<forall>ck j'. ck_job ck = Some j' \<and> j_uuid j' = ju \<and> ck_tasks_to_launch ck \<noteq> [] \<longrightarrow>
          run_job_collateral e d ck fx = Inl err) \<and>
       (\<forall>ck. uk_job_uuid ck = Some ju \<and>
           (\<forall>p. uk_project_uuid ck = Some p \<and> uk_completed ck \<longrightarrow>
              process_stale_environment_images e p False = None) \<longrightarrow>
          update_job_pipeline_run_collateral e d ck fx = Inl err))"
proof (intro conjI allI impI)
  assume resp: "\<forall>h u. \<exists>c. requests_delete e h u = Inr c"
  show "\<exists>fx'. delete_non_retained_pipeline_runs e ju d fx = Inr fx'"
    by (rule pruning_returns[OF resp assms])
  {
    fix ck :: run_job_kwargs and j' :: job
    assume a: "ck_job ck = Some j' \<and> j_uuid j' = ju \<and> ck_tasks_to_launch ck \<noteq> []"
    obtain fx1 where "delete_non_retained_pipeline_runs e ju d fx = Inr fx1"
      using pruning_returns[OF resp assms] by blast
    with a show "\<exists>fx1. delete_non_retained_pipeline_runs e ju d fx = Inr fx1 \<and>
        run_job_collateral e d ck fx
          = launch_tasks e j' (ck_run_config ck) (ck_tasks_to_launch ck) fx1"
      by (simp add: run_job_collateral_def)
  }
  {
    fix ck :: update_run_kwargs
    assume a: "uk_job_uuid ck = Some ju \<and>
      (\<forall>p. uk_project_uuid ck = Some p \<and> uk_completed ck \<longrightarrow>
         process_stale_environment_images e p False = None)"
    have "\<And>fx0. \<exists>fx'. delete_non_retained_pipeline_runs e ju d fx0 = Inr fx'"
      using pruning_returns[OF resp assms] by blast
    with a show "\<exists>fx'. update_job_pipeline_run_collateral e d ck fx = Inr fx'"
      by (auto simp: update_job_pipeline_run_collateral_def and_then_def split: option.splits)
  }
next
  fix ru rest c
  assume "requests_delete e (http_deletes fx) (cleanup_url e ju ru) = Inr c"
  then show "delete_runs e ju (ru # rest) fx
      = delete_runs e ju rest
          (fx\<lparr>http_deletes := http_deletes fx @ [cleanup_url e ju ru],
              fx_log := fx_log fx @
                [Info_DeletingRun ru,
                 if c = 200 \<or> c = 404 then Info_SuccessfullyDeleted ru
                 else Error_UnexpectedStatusCode c ru]\<rparr>)"
    by (simp add: Let_def)
next
  fix pre ru rest err
  assume a: "0 \<le> max_retained_pipeline_runs j \<and>
       runs_to_be_deleted ju j (runs d) = pre @ ru # rest \<and>
       (\<forall>i < length pre. \<exists>c.
          requests_delete e (http_deletes fx @ map (cleanup_url e ju) (take i pre))
            (cleanup_url e ju (pre ! i)) = Inr c) \<and>
       requests_delete e (http_deletes fx @ map (cleanup_url e ju) pre) (cleanup_url e ju ru)
         = Inl err"
  then have m: "0 \<le> max_retained_pipeline_runs j"
    and sel: "runs_to_be_deleted ju j (runs d) = pre @ ru # rest"
    and ok: "\<forall>i < length pre. \<exists>c.
          requests_delete e (http_deletes fx @ map (cleanup_url e ju) (take i pre))
            (cleanup_url e ju (pre ! i)) = Inr c"
    and bad: "requests_delete e (http_deletes fx @ map (cleanup_url e ju) pre)
        (cleanup_url e ju ru) = Inl err"
    by blast+
  have p: "\<And>fx0. http_deletes fx0 = http_deletes fx \<Longrightarrow>
      delete_non_retained_pipeline_runs e ju d fx0 = Inl err"
    by (rule pruning_propagates[OF assms m sel ok bad])
  show "delete_non_retained_pipeline_runs e ju d fx = Inl err"
    by (rule p) simp
  {
    fix ck :: run_job_kwargs and j' :: job
    assume "ck_job ck = Some j' \<and> j_uuid j' = ju \<and> ck_tasks_to_launch ck \<noteq> []"
    then show "run_job_collateral e d ck fx = Inl err"
      using p[of fx] by (simp add: run_job_collateral_def)
  }
  {
    fix ck :: update_run_kwargs
    assume b: "uk_job_uuid ck = Some ju \<and>
      (\<forall>p. uk_project_uuid ck = Some p \<and> uk_completed ck \<longrightarrow>
         process_stale_environment_images e p False = None)"
    have q: "\<And>c. delete_non_retained_pipeline_runs e ju d
        (fx\<lparr>stale_image_calls := c\<rparr>) = Inl err"
      by (rule p) simp
    show "update_job_pipeline_run_collateral e d ck fx = Inl err"
      using b p[of fx] q
      by (auto simp: update_job_pipeline_run_collateral_def and_then_def split: option.splits)
  }
qed


theorem pruning_outcomes_witness:
  "map_sum id fx_log
     (delete_non_retained_pipeline_runs (answering (Inr 500)) ''job''
        (example_db (retained_job 2 0) [example_run ''run-0'' 0 SUCCESS]) no_effects)
     = Inr [Info_DeletingNonRetained ''job'' 0, Info_DeletingRun ''run-0'',
            Error_UnexpectedStatusCode 500 ''run-0''] \<and>
   map_sum id fx_log
     (delete_non_retained_pipeline_runs (answering (Inr 404)) ''job''
        (example_db (retained_job 2 0) [example_run ''run-0'' 0 SUCCESS]) no_effects)
     = Inr [Info_DeletingNonRetained ''job'' 0, Info_DeletingRun ''run-0'',
            Info_SuccessfullyDeleted ''run-0''] \<and>
   map_sum id (\<lambda>fx. map task_id (sent_tasks fx))
     (run_job_collateral (answering (Inr 500))
        (example_db (retained_job 5 2) five_runs) example_kwargs no_effects)
     = Inr [''run-5''] \<and>
   map_sum id http_deletes
     (update_job_pipeline_run_collateral (answering (Inr 500))
        (example_db (retained_job 5 2) five_runs)
        \<lparr>uk_project_uuid = Some ''project'', uk_job_uuid = Some ''job'', uk_completed = True\<rparr>
        no_effects)
     = Inr [''http://orchest-webserver/catch/api-proxy/api/jobs/cleanup/job/run-0'',
            ''http://orchest-webserver/catch/api-proxy/api/jobs/cleanup/job/run-1'',
            ''http://orchest-webserver/catch/api-proxy/api/jobs/cleanup/job/run-2''] \<and>
   delete_non_retained_pipeline_runs answering_once ''job''
     (example_db (retained_job 5 2) five_runs) no_effects = Inl RequestException \<and>
   run_job_collateral answering_once
     (example_db (retained_job 5 2) five_runs) example_kwargs no_effects
     = Inl RequestException \<and>
   update_job_pipeline_run_collateral answering_once
     (example_db (retained_job 5 2) five_runs)
     \<lparr>uk_project_uuid = Some ''project'', uk_job_uuid = Some ''job'', uk_completed = True\<rparr>
     no_effects = Inl RequestException"
proof -
  let ?e = "answering (Inr 500)"
  let ?d = "example_db (retained_job 5 2) five_runs"
  let ?uk = "\<lparr>uk_project_uuid = Some ''project'', uk_job_uuid = Some ''job'',
      uk_completed = True\<rparr>"
  have resp: "\<forall>h u. \<exists>c. requests_delete ?e h u = Inr c"
    by (simp add: answering_def)
  have j: "jobs ?d ''job'' = Some (retained_job 5 2)"
    by (simp add: example_db_def)
  note t = pruning_outcomes[OF j, of ?e no_effects]
  have ck: "ck_job example_kwargs = Some (retained_job 5 2) \<and>
      j_uuid (retained_job 5 2) = ''job'' \<and> ck_tasks_to_launch example_kwargs \<noteq> []"
    by (simp add: example_kwargs_def retained_job_def example_job_def)
  from t resp ck obtain fx1 where fx1:
    "delete_non_retained_pipeline_runs ?e ''job'' ?d no_effects = Inr fx1"
    "run_job_collateral ?e ?d example_kwargs no_effects
       = launch_tasks ?e (retained_job 5 2) (ck_run_config example_kwargs)
           (ck_tasks_to_launch example_kwargs) fx1"
    by blast
  have sent: "sent_tasks fx1 = []"
    using fx1(1)
    by (auto simp: delete_non_retained_pipeline_runs_def example_db_def retained_job_def
      example_job_def example_run_def runs_to_be_deleted_def out_of_retention_def
      cleanup_url_def example_env_def no_effects_def Let_def answering_def five_runs_def)
  have c: "map_sum id (\<lambda>fx. map task_id (sent_tasks fx))
      (run_job_collateral ?e ?d example_kwargs no_effects) = Inr [''run-5'']"
    using fx1(2) sent
    by (simp add: example_kwargs_def answering_def example_env_def)
  note u = pruning_outcomes[OF j, of answering_once no_effects]
  have m: "0 \<le> max_retained_pipeline_runs (retained_job 5 2)"
    by (simp add: retained_job_def)
  have sel: "runs_to_be_deleted ''job'' (retained_job 5 2) (runs ?d)
      = [''run-0''] @ ''run-1'' # [''run-2'']"
    by (simp add: example_db_def retained_job_def example_job_def example_run_def
        runs_to_be_deleted_def out_of_retention_def five_runs_def)
  have ok: "\<forall>i < length [''run-0'']. \<exists>c.
      requests_delete answering_once
        (http_deletes no_effects @ map (cleanup_url answering_once ''job'') (take i [''run-0'']))
        (cleanup_url answering_once ''job'' ([''run-0''] ! i)) = Inr c"
    by (simp add: answering_once_def no_effects_def)
  have bad: "requests_delete answering_once
      (http_deletes no_effects @ map (cleanup_url answering_once ''job'') [''run-0''])
      (cleanup_url answering_once ''job'' ''run-1'') = Inl RequestException"
    by (simp add: answering_once_def no_effects_def)
  have st: "uk_job_uuid ?uk = Some ''job'' \<and>
      (\<forall>p. uk_project_uuid ?uk = Some p \<and> uk_completed ?uk \<longrightarrow>
         process_stale_environment_images answering_once p False = None)"
    by (simp add: answering_once_def example_env_def)
  from u m sel ok bad have p:
    "delete_non_retained_pipeline_runs answering_once ''job'' ?d no_effects
       = Inl RequestException \<and>
     (\<forall>ck j'. ck_job ck = Some j' \<and> j_uuid j' = ''job'' \<and> ck_tasks_to_launch ck \<noteq> [] \<longrightarrow>
        run_job_collateral answering_once ?d ck no_effects = Inl RequestException) \<and>
     (\<forall>ck. uk_job_uuid ck = Some ''job'' \<and>
         (\<forall>p. uk_project_uuid ck = Some p \<and> uk_completed ck \<longrightarrow>
            process_stale_environment_images answering_once p False = None) \<longrightarrow>
        update_job_pipeline_run_collateral answering_once ?d ck no_effects
          = Inl RequestException)"
    by blast
  from p ck st have q:
    "delete_non_retained_pipeline_runs answering_once ''job'' ?d no_effects
       = Inl RequestException"
    "run_job_collateral answering_once ?d example_kwargs no_effects = Inl RequestException"
    "update_job_pipeline_run_collateral answering_once ?d ?uk no_effects = Inl RequestException"
    by blast+
  show ?thesis
    using c q
    by (simp add: delete_non_retained_pipeline_runs_def example_db_def retained_job_def
      example_job_def example_run_def runs_to_be_deleted_def out_of_retention_def
      cleanup_url_def example_env_def no_effects_def Let_def answering_def five_runs_def
      update_job_pipeline_run_collateral_def and_then_def)
qed



section \<open>Properties of UpdateJobPipelineRun\<close>

lemma runs_to_complete_zero:
  "runs_to_complete ju rs = 0 \<longleftrightarrow>
     (\<forall>r \<in> set rs. job_uuid r = ju \<longrightarrow> r_status r \<noteq> PENDING \<and> r_status r \<noteq> STARTED)"
  by (auto simp: runs_to_complete_def filter_empty_conv)

text \<open>
  Claim C3. Let the status update of the run go through and leave the run table
  \<open>rs\<close>. The transaction then returns the store with that run table in which the job
  row is set to SUCCESS exactly when the new run status is SUCCESS, FAILURE or ABORTED,
  the job has no schedule, no run of the job in \<open>rs\<close> is PENDING or STARTED (the runs
  are counted anew in \<open>rs\<close>, whatever end state each one has), and the job is not
  already SUCCESS, FAILURE or ABORTED; in every other case, so for every job that has
  a schedule, the job row stays as it is. The flag \<^verbatim>\<open>completed\<close> tells whether the
  count was made and was 0.
\<close>
theorem one_off_job_completion:
  assumes "update_status_db_runs e su [(''job_uuid'', ju), (''uuid'', ru)] (runs d) = Inr rs"
    and "jobs d ju = Some j"
  shows "\<exists>ck lg. update_job_pipeline_run e ju ru su d
      = Inr (d\<lparr>runs := rs,
               jobs := (jobs d)
                 (ju \<mapsto> (if (su_status su = SUCCESS \<or> su_status su = FAILURE \<or> su_status su = ABORTED) \<and>
                            schedule j = None \<and>
                            (\<forall>r \<in> set rs. job_uuid r = ju \<longrightarrow>
                               r_status r \<noteq> PENDING \<and> r_status r \<noteq> STARTED) \<and>
                            j_status j \<noteq> SUCCESS \<and> j_status j \<noteq> FAILURE \<and> j_status j \<noteq> ABORTED
                         then j\<lparr>j_status := SUCCESS\<rparr> else j))\<rparr>, ck, lg) \<and>
      uk_completed ck
        = ((su_status su = SUCCESS \<or> su_status su = FAILURE \<or> su_status su = ABORTED) \<and>
           schedule j = None \<and>
           (\<forall>r \<in> set rs. job_uuid r = ju \<longrightarrow> r_status r \<noteq> PENDING \<and> r_status r \<noteq> STARTED))"
proof -
  let ?T = "su_status su = SUCCESS \<or> su_status su = FAILURE \<or> su_status su = ABORTED"
  let ?Z = "\<forall>r \<in> set rs. job_uuid r = ju \<longrightarrow> r_status r \<noteq> PENDING \<and> r_status r \<noteq> STARTED"
  let ?E = "j_status j \<noteq> SUCCESS \<and> j_status j \<noteq> FAILURE \<and> j_status j \<noteq> ABORTED"
  have triv: "(jobs d)(ju \<mapsto> j) = jobs d"
    using assms(2) by (rule map_upd_triv)
  have same: "d\<lparr>runs := rs, jobs := jobs d\<rparr> = d\<lparr>runs := rs\<rparr>"
    by simp
  have z: "runs_to_complete ju rs = 0 \<longleftrightarrow> ?Z"
    by (rule runs_to_complete_zero)
  consider (not_end) "\<not> ?T" | (cron) "?T" "schedule j \<noteq> None"
    | (remaining) "?T" "schedule j = None" "\<not> ?Z"
    | (done_end) "?T" "schedule j = None" "?Z" "\<not> ?E"
    | (done_flip) "?T" "schedule j = None" "?Z" "?E"
    by blast
  then show ?thesis
  proof cases
    case not_end
    then show ?thesis
      using assms by (simp add: update_job_pipeline_run_def Let_def triv same)
  next
    case cron
    then show ?thesis
      using assms by (auto simp: update_job_pipeline_run_def Let_def triv same)
  next
    case remaining
    then have "runs_to_complete ju rs \<noteq> 0" using z by simp
    with remaining show ?thesis
      using assms by (auto simp: update_job_pipeline_run_def Let_def triv same)
  next
    case done_end
    then have "runs_to_complete ju rs = 0" using z by simp
    with done_end show ?thesis
      using assms by (auto simp: update_job_pipeline_run_def Let_def triv same)
  next
    case done_flip
    then have "runs_to_complete ju rs = 0" using z by simp
    with done_flip show ?thesis
      using assms by (auto simp: update_job_pipeline_run_def Let_def)
  qed
qed


theorem one_off_job_completion_witness:
  "map_sum id (\<lambda>(d, ck, lg). (map_option j_status (jobs d ''job''), map r_status (runs d),
        uk_completed ck))
     (update_job_pipeline_run example_env ''job'' ''run-1'' (succeeded ''1970-01-02T00:00:00'')
        (example_db (example_job\<lparr>j_status := STARTED\<rparr>)
           [example_run ''run-0'' 0 FAILURE, example_run ''run-1'' 1 STARTED]))
     = Inr (Some SUCCESS, [FAILURE, SUCCESS], True) \<and>
   map_sum id (\<lambda>(d, ck, lg). (map_option j_status (jobs d ''job''), map r_status (runs d),
        uk_completed ck))
     (update_job_pipeline_run example_env ''job'' ''run-1'' (succeeded ''1970-01-02T00:00:00'')
        (example_db (example_job\<lparr>j_status := STARTED\<rparr>)
           [example_run ''run-0'' 0 PENDING, example_run ''run-1'' 1 STARTED]))
     = Inr (Some STARTED, [PENDING, SUCCESS], False) \<and>
   map_sum id (\<lambda>(d, ck, lg). (map_option j_status (jobs d ''job''), map r_status (runs d),
        uk_completed ck))
     (update_job_pipeline_run example_env ''job'' ''run-1'' (succeeded ''1970-01-02T00:00:00'')
        (example_db (example_job\<lparr>j_status := STARTED, schedule := Some ''0 * * * *''\<rparr>)
           [example_run ''run-0'' 0 FAILURE, example_run ''run-1'' 1 STARTED]))
     = Inr (Some STARTED, [FAILURE, SUCCESS], False)"
proof -
  let ?su = "succeeded ''1970-01-02T00:00:00''"
  let ?j = "example_job\<lparr>j_status := STARTED\<rparr>"
  let ?d = "example_db ?j [example_run ''run-0'' 0 FAILURE, example_run ''run-1'' 1 STARTED]"
  let ?rs = "[example_run ''run-0'' 0 FAILURE, example_run ''run-1'' 1 SUCCESS]"
  have u: "update_status_db_runs example_env ?su [(''job_uuid'', ''job''), (''uuid'', ''run-1'')]
      (runs ?d) = Inr ?rs"
    by (simp add: example_env_def example_db_def example_run_def example_matches_run_def
        succeeded_def)
  have j: "jobs ?d ''job'' = Some ?j" by (simp add: example_db_def)
  from one_off_job_completion[OF u j] obtain ck lg where r:
    "update_job_pipeline_run example_env ''job'' ''run-1'' ?su ?d
      = Inr (?d\<lparr>runs := ?rs,
               jobs := (jobs ?d)
                 (''job'' \<mapsto> (if (su_status ?su = SUCCESS \<or> su_status ?su = FAILURE \<or> su_status ?su = ABORTED) \<and>
                            schedule ?j = None \<and>
                            (\<forall>r \<in> set ?rs. job_uuid r = ''job'' \<longrightarrow>
                               r_status r \<noteq> PENDING \<and> r_status r \<noteq> STARTED) \<and>
                            j_status ?j \<noteq> SUCCESS \<and> j_status ?j \<noteq> FAILURE \<and> j_status ?j \<noteq> ABORTED
                         then ?j\<lparr>j_status := SUCCESS\<rparr> else ?j))\<rparr>, ck, lg)"
    "uk_completed ck
        = ((su_status ?su = SUCCESS \<or> su_status ?su = FAILURE \<or> su_status ?su = ABORTED) \<and>
           schedule ?j = None \<and>
           (\<forall>r \<in> set ?rs. job_uuid r = ''job'' \<longrightarrow> r_status r \<noteq> PENDING \<and> r_status r \<noteq> STARTED))"
    by blast
  have a: "map_sum id (\<lambda>(d, ck, lg). (map_option j_status (jobs d ''job''), map r_status (runs d),
        uk_completed ck))
     (update_job_pipeline_run example_env ''job'' ''run-1'' ?su ?d)
     = Inr (Some SUCCESS, [FAILURE, SUCCESS], True)"
    using r by (simp add: example_run_def succeeded_def example_job_def)
  show ?thesis
    using a
    by (simp add: update_job_pipeline_run_def Let_def example_env_def example_db_def
        example_run_def example_matches_run_def succeeded_def example_job_def
        runs_to_complete_def)
qed

section \<open>Properties of AbortJob\<close>

lemma abort_runs_returns:
  assumes "\<forall>su f rs. \<exists>rs'. update_status_db_runs e su f rs = Inr rs'"
    and "\<forall>su f ss. \<exists>ss'. update_status_db_steps e su f ss = Inr ss'"
  shows "\<exists>rs' ss'. abort_runs e us rs ss = Inr (rs', ss')"
proof (induction us arbitrary: rs ss)
  case Nil
  show ?case by simp
next
  case (Cons ru rest)
  obtain rs1 where r: "update_status_db_runs e aborted_update [(''uuid'', ru)] rs = Inr rs1"
    using assms(1) by blast
  obtain ss1 where s: "update_status_db_steps e aborted_update [(''run_uuid'', ru)] ss = Inr ss1"
    using assms(2) by blast
  show ?case using Cons.IH[of rs1 ss1] r s by simp
qed

text \<open>
  Claim C6. On a job that is SUCCESS, FAILURE or ABORTED the transaction takes the bare
  \<^verbatim>\<open>return\<close> (nothing to do): the store is returned as it was, jobs, runs and steps,
  and no run is handed to the collateral phase. On any other job a transaction that
  returns has returned \<^verbatim>\<open>True\<close> and left the job ABORTED with no
  \<^verbatim>\<open>next_scheduled_time\<close>, and a second call on the resulting store is such a no-op.
  The transaction returns whenever the status updater does.
\<close>
theorem abort_job_idempotent:
  assumes "jobs d ju = Some j"
  shows "(j_status j = SUCCESS \<or> j_status j = FAILURE \<or> j_status j = ABORTED \<longrightarrow>
            abort_job e ju d
              = Inr (None, d, \<lparr>ak_run_uuids = [], ak_job_uuid = ju,
                                ak_project_uuid = Some (j_project_uuid j)\<rparr>)) \<and>
         (j_status j \<noteq> SUCCESS \<and> j_status j \<noteq> FAILURE \<and> j_status j \<noteq> ABORTED \<longrightarrow>
            (\<forall>res d' ck. abort_job e ju d = Inr (res, d', ck) \<longrightarrow>
               res = Some True \<and>
               jobs d' = (jobs d)(ju \<mapsto> j\<lparr>j_status := ABORTED, next_scheduled_time := None\<rparr>) \<and>
               abort_job e ju d'
                 = Inr (None, d', \<lparr>ak_run_uuids = [], ak_job_uuid = ju,
                                    ak_project_uuid = Some (j_project_uuid j)\<rparr>))) \<and>
         ((\<forall>su f rs. \<exists>rs'. update_status_db_runs e su f rs = Inr rs') \<and>
          (\<forall>su f ss. \<exists>ss'. update_status_db_steps e su f ss = Inr ss') \<longrightarrow>
            (\<exists>res d' ck. abort_job e ju d = Inr (res, d', ck)))"
proof (intro conjI impI allI)
  assume "j_status j = SUCCESS \<or> j_status j = FAILURE \<or> j_status j = ABORTED"
  with assms show "abort_job e ju d
      = Inr (None, d, \<lparr>ak_run_uuids = [], ak_job_uuid = ju,
                        ak_project_uuid = Some (j_project_uuid j)\<rparr>)"
    by (auto simp: abort_job_def Let_def)
next
  fix res d' ck
  assume n: "j_status j \<noteq> SUCCESS \<and> j_status j \<noteq> FAILURE \<and> j_status j \<noteq> ABORTED"
    and a: "abort_job e ju d = Inr (res, d', ck)"
  from assms n a obtain rs ss where
    d': "d' = d\<lparr>jobs := (jobs d)(ju \<mapsto> j\<lparr>j_status := ABORTED, next_scheduled_time := None\<rparr>),
               runs := rs, steps := ss\<rparr>"
    and res: "res = Some True"
    by (auto simp: abort_job_def Let_def split: sum.splits)
  show "res = Some True" by (rule res)
  show "jobs d' = (jobs d)(ju \<mapsto> j\<lparr>j_status := ABORTED, next_scheduled_time := None\<rparr>)"
    using d' by simp
  show "abort_job e ju d'
      = Inr (None, d', \<lparr>ak_run_uuids = [], ak_job_uuid = ju,
                         ak_project_uuid = Some (j_project_uuid j)\<rparr>)"
    using d' by (simp add: abort_job_def Let_def)
next
  assume "(\<forall>su f rs. \<exists>rs'. update_status_db_runs e su f rs = Inr rs') \<and>
          (\<forall>su f ss. \<exists>ss'. update_status_db_steps e su f ss = Inr ss')"
  then obtain rs' ss' where
    "abort_runs e (map r_uuid (filter (\<lambda>r. job_uuid r = ju \<and> r_status r \<in> set [PENDING, STARTED])
        (runs d))) (runs d) (steps d) = Inr (rs', ss')"
    using abort_runs_returns[of e] by blast
  with assms show "\<exists>res d' ck. abort_job e ju d = Inr (res, d', ck)"
    by (simp add: abort_job_def Let_def)
qed


theorem abort_job_idempotent_witness:
  "map_sum id (\<lambda>(res, d, ck).
       (res, map_option j_status (jobs d ''job''), map r_status (runs d), ak_run_uuids ck,
        map_sum id (\<lambda>(res2, d2, ck2). (res2, d2 = d, ak_run_uuids ck2))
          (abort_job example_env ''job'' d)))
     (abort_job example_env ''job''
        (example_db (example_job\<lparr>j_status := STARTED\<rparr>)
           [example_run ''run-0'' 0 SUCCESS, example_run ''run-1'' 1 STARTED]))
   = Inr (Some True, Some ABORTED, [SUCCESS, ABORTED], [''run-1''], Inr (None, True, []))"
proof -
  let ?j = "example_job\<lparr>j_status := STARTED\<rparr>"
  let ?d = "example_db ?j [example_run ''run-0'' 0 SUCCESS, example_run ''run-1'' 1 STARTED]"
  have j: "jobs ?d ''job'' = Some ?j" by (simp add: example_db_def)
  have n: "j_status ?j \<noteq> SUCCESS \<and> j_status ?j \<noteq> FAILURE \<and> j_status ?j \<noteq> ABORTED"
    by simp
  have tot: "(\<forall>su f rs. \<exists>rs'. update_status_db_runs example_env su f rs = Inr rs') \<and>
      (\<forall>su f ss. \<exists>ss'. update_status_db_steps example_env su f ss = Inr ss')"
    by (simp add: example_env_def)
  note t = abort_job_idempotent[OF j, of example_env]
  from t tot obtain res d' ck where a: "abort_job example_env ''job'' ?d = Inr (res, d', ck)"
    by blast
  with t n have b: "res = Some True"
    "jobs d' = (jobs ?d)(''job'' \<mapsto> ?j\<lparr>j_status := ABORTED, next_scheduled_time := None\<rparr>)"
    "abort_job example_env ''job'' d'
       = Inr (None, d', \<lparr>ak_run_uuids = [], ak_job_uuid = ''job'',
                          ak_project_uuid = Some (j_project_uuid ?j)\<rparr>)"
    by blast+
  have c: "map r_status (runs d') = [SUCCESS, ABORTED]" "ak_run_uuids ck = [''run-1'']"
    using a
    by (auto simp: abort_job_def Let_def example_db_def example_run_def example_env_def
        example_matches_run_def aborted_update_def)
  show ?thesis
    using a b c by simp
qed

section \<open>Properties of UpdateJob\<close>

lemmas upd_defs = upd_name_def upd_cron_schedule_def upd_parameters_def upd_env_variables_def
  upd_next_scheduled_time_def upd_schedule_now_def upd_strategy_json_def
  upd_max_retained_pipeline_runs_def

lemma update_job_fields_immutable:
  assumes "schedule j = None" and "j_status j \<noteq> DRAFT"
    and "u_cron_schedule u \<noteq> None \<or> u_parameters u \<noteq> None \<or> u_env_variables u \<noteq> None \<or>
         u_strategy_json u \<noteq> None \<or> u_max_retained_pipeline_runs u \<noteq> None"
  shows "\<exists>msg. update_job_fields e now u j = Inl (ValueError msg)"
proof -
  have "\<exists>j1. upd_name u j = Inr j1 \<and> schedule j1 = None \<and> j_status j1 \<noteq> DRAFT"
    using assms(1,2) by (cases "u_name u") (simp_all add: upd_name_def)
  then obtain j1 where j1: "upd_name u j = Inr j1" "schedule j1 = None" "j_status j1 \<noteq> DRAFT"
    by blast
  show ?thesis
  proof (cases "u_cron_schedule u")
    case (Some c)
    then show ?thesis using j1 by (simp add: update_job_fields_def and_then_def upd_cron_schedule_def)
  next
    case c: None
    then have s2: "upd_cron_schedule e now u j1 = Inr j1" by (simp add: upd_cron_schedule_def)
    show ?thesis
    proof (cases "u_parameters u")
      case (Some ps)
      then show ?thesis using j1 s2
        by (simp add: update_job_fields_def and_then_def upd_parameters_def)
    next
      case p: None
      then have s3: "upd_parameters u j1 = Inr j1" by (simp add: upd_parameters_def)
      show ?thesis
      proof (cases "u_env_variables u")
        case (Some vs)
        then show ?thesis using j1 s2 s3
          by (simp add: update_job_fields_def and_then_def upd_env_variables_def)
      next
        case v: None
        then have s4: "upd_env_variables e u j1 = Inr j1" by (simp add: upd_env_variables_def)
        show ?thesis
        proof (cases "u_next_scheduled_time u")
          case (Some nst)
          then show ?thesis using j1 s2 s3 s4
            by (simp add: update_job_fields_def and_then_def upd_next_scheduled_time_def)
        next
          case n: None
          then have s5: "upd_next_scheduled_time e u j1 = Inr j1"
            by (simp add: upd_next_scheduled_time_def)
          have s6: "upd_schedule_now u j1 = Inr j1"
            using j1 by (simp add: upd_schedule_now_def)
          show ?thesis
          proof (cases "u_strategy_json u")
            case (Some sj)
            then show ?thesis using j1 s2 s3 s4 s5 s6
              by (simp add: update_job_fields_def and_then_def upd_strategy_json_def)
          next
            case None
            then have s7: "upd_strategy_json u j1 = Inr j1" by (simp add: upd_strategy_json_def)
            from assms(3) c p v None obtain m where "u_max_retained_pipeline_runs u = Some m"
              by auto
            then show ?thesis using j1 s2 s3 s4 s5 s6 s7
              by (simp add: update_job_fields_def and_then_def upd_max_retained_pipeline_runs_def)
          qed
        qed
      qed
    qed
  qed
qed

text \<open>
  Claim C7. On a job that has no schedule and is not a DRAFT, a call that supplies a
  cron schedule, parameters, env variables, a strategy json or
  \<^verbatim>\<open>max_retained_pipeline_runs\<close> raises \<^verbatim>\<open>ValueError\<close>, and the store after the call is
  the store before it.
\<close>
theorem update_job_rejects_immutable_edit:
  assumes "jobs d ju = Some j" and "schedule j = None" and "j_status j \<noteq> DRAFT"
    and "u_cron_schedule u \<noteq> None \<or> u_parameters u \<noteq> None \<or> u_env_variables u \<noteq> None \<or>
         u_strategy_json u \<noteq> None \<or> u_max_retained_pipeline_runs u \<noteq> None"
  shows "(\<exists>msg. update_job e now ids ju u d = Inl (ValueError msg)) \<and>
         store_after (update_job e now ids ju u) d = d"
proof -
  from update_job_fields_immutable[OF assms(2,3,4)] obtain msg where
    "update_job_fields e now u j = Inl (ValueError msg)" by blast
  with assms(1) have "update_job e now ids ju u d = Inl (ValueError msg)"
    by (simp add: update_job_def)
  then show ?thesis by (simp add: store_after_def)
qed


theorem update_job_rejects_immutable_edit_witness:
  "update_job example_env 0 (\<lambda>k. ''run-a'') ''job'' (only_parameters [[]])
     (example_db (example_job\<lparr>j_status := STARTED\<rparr>) [])
     = Inl (ValueError ''Failed update operation. Cannot update the parameters of a job which is not a cron job.'') \<and>
   store_after (update_job example_env 0 (\<lambda>k. ''run-a'') ''job'' (only_parameters [[]]))
     (example_db (example_job\<lparr>j_status := STARTED\<rparr>) [])
     = example_db (example_job\<lparr>j_status := STARTED\<rparr>) []"
proof -
  let ?j = "example_job\<lparr>j_status := STARTED\<rparr>"
  have j: "jobs (example_db ?j []) ''job'' = Some ?j" by (simp add: example_db_def)
  have s: "schedule ?j = None" by (simp add: example_job_def)
  have n: "j_status ?j \<noteq> DRAFT" by simp
  have p: "u_cron_schedule (only_parameters [[]]) \<noteq> None \<or>
      u_parameters (only_parameters [[]]) \<noteq> None \<or>
      u_env_variables (only_parameters [[]]) \<noteq> None \<or>
      u_strategy_json (only_parameters [[]]) \<noteq> None \<or>
      u_max_retained_pipeline_runs (only_parameters [[]]) \<noteq> None"
    by (simp add: only_parameters_def)
  have v: "update_job example_env 0 (\<lambda>k. ''run-a'') ''job'' (only_parameters [[]])
     (example_db ?j [])
     = Inl (ValueError ''Failed update operation. Cannot update the parameters of a job which is not a cron job.'')"
    by (simp add: update_job_def update_job_fields_def and_then_def upd_defs only_parameters_def
        example_db_def example_job_def)
  from update_job_rejects_immutable_edit[OF j s n p, of example_env 0 "\<lambda>k. ''run-a''"] v
  show ?thesis by simp
qed

section \<open>Properties of PauseCronJob and ResumeCronJob\<close>

text \<open>
  Claim C8. \<^verbatim>\<open>PauseCronJob\<close> succeeds exactly on a job that is STARTED and has a
  schedule, and then sets PAUSED and clears \<^verbatim>\<open>next_scheduled_time\<close>.
  \<^verbatim>\<open>ResumeCronJob\<close> succeeds only on a job that is PAUSED and has a schedule, and then
  sets STARTED and sets \<^verbatim>\<open>next_scheduled_time\<close> to what croniter gives as the next
  occurrence of the schedule after the current time, which is later than the current
  time as croniter's occurrences are. In every other state of the store either
  transaction returns the store as it was, and the endpoint answers 409.
\<close>
theorem pause_resume_cron_job:
  shows "(fst (pause_cron_job ju d) \<longleftrightarrow>
            (\<exists>j. jobs d ju = Some j \<and> j_status j = STARTED \<and> schedule j \<noteq> None)) \<and>
         (\<forall>j. jobs d ju = Some j \<and> j_status j = STARTED \<and> schedule j \<noteq> None \<longrightarrow>
            pause_cron_job ju d
              = (True, d\<lparr>jobs := (jobs d)
                          (ju \<mapsto> j\<lparr>j_status := PAUSED, next_scheduled_time := None\<rparr>)\<rparr>) \<and>
            cron_job_pause_post ju d = Message ''Cron job pausing was successful.'' 200) \<and>
         (\<not> (\<exists>j. jobs d ju = Some j \<and> j_status j = STARTED \<and> schedule j \<noteq> None) \<longrightarrow>
            pause_cron_job ju d = (False, d) \<and>
            cron_job_pause_post ju d = Message ''Could not pause cron job.'' 409) \<and>
         (\<forall>t d'. resume_cron_job e now ju d = Inr (Some t, d') \<longrightarrow>
            (\<exists>j cron. jobs d ju = Some j \<and> j_status j = PAUSED \<and> schedule j = Some cron \<and>
               croniter_get_next e cron now = Inr t \<and>
               d' = d\<lparr>jobs := (jobs d)
                          (ju \<mapsto> j\<lparr>j_status := STARTED, next_scheduled_time := Some t\<rparr>)\<rparr>)) \<and>
         (\<forall>j cron t. jobs d ju = Some j \<and> j_status j = PAUSED \<and> schedule j = Some cron \<and>
               croniter_get_next e cron now = Inr t \<longrightarrow>
            resume_cron_job e now ju d
              = Inr (Some t, d\<lparr>jobs := (jobs d)
                          (ju \<mapsto> j\<lparr>j_status := STARTED, next_scheduled_time := Some t\<rparr>)\<rparr>) \<and>
            cron_job_resume_post e now ju d = NextScheduledTime t 200) \<and>
         (\<not> (\<exists>j. jobs d ju = Some j \<and> j_status j = PAUSED \<and> schedule j \<noteq> None) \<longrightarrow>
            resume_cron_job e now ju d = Inr (None, d) \<and>
            cron_job_resume_post e now ju d = Message ''Could not resume cron job.'' 409) \<and>
         ((\<forall>c n t. croniter_get_next e c n = Inr t \<longrightarrow> n < t) \<longrightarrow>
            (\<forall>t d'. resume_cron_job e now ju d = Inr (Some t, d') \<longrightarrow> now < t))"
proof (intro conjI)
  show "fst (pause_cron_job ju d) \<longleftrightarrow>
      (\<exists>j. jobs d ju = Some j \<and> j_status j = STARTED \<and> schedule j \<noteq> None)"
    by (auto simp: pause_cron_job_def split: option.splits)
  show "\<forall>j. jobs d ju = Some j \<and> j_status j = STARTED \<and> schedule j \<noteq> None \<longrightarrow>
      pause_cron_job ju d
        = (True, d\<lparr>jobs := (jobs d)
                    (ju \<mapsto> j\<lparr>j_status := PAUSED, next_scheduled_time := None\<rparr>)\<rparr>) \<and>
      cron_job_pause_post ju d = Message ''Cron job pausing was successful.'' 200"
    by (auto simp: pause_cron_job_def cron_job_pause_post_def)
  show "\<not> (\<exists>j. jobs d ju = Some j \<and> j_status j = STARTED \<and> schedule j \<noteq> None) \<longrightarrow>
      pause_cron_job ju d = (False, d) \<and>
      cron_job_pause_post ju d = Message ''Could not pause cron job.'' 409"
    by (auto simp: pause_cron_job_def cron_job_pause_post_def split: option.splits)
  show r: "\<forall>t d'. resume_cron_job e now ju d = Inr (Some t, d') \<longrightarrow>
      (\<exists>j cron. jobs d ju = Some j \<and> j_status j = PAUSED \<and> schedule j = Some cron \<and>
         croniter_get_next e cron now = Inr t \<and>
         d' = d\<lparr>jobs := (jobs d)
                    (ju \<mapsto> j\<lparr>j_status := STARTED, next_scheduled_time := Some t\<rparr>)\<rparr>)"
    by (auto simp: resume_cron_job_def split: option.splits if_splits sum.splits)
  show "\<forall>j cron t. jobs d ju = Some j \<and> j_status j = PAUSED \<and> schedule j = Some cron \<and>
        croniter_get_next e cron now = Inr t \<longrightarrow>
      resume_cron_job e now ju d
        = Inr (Some t, d\<lparr>jobs := (jobs d)
                    (ju \<mapsto> j\<lparr>j_status := STARTED, next_scheduled_time := Some t\<rparr>)\<rparr>) \<and>
      cron_job_resume_post e now ju d = NextScheduledTime t 200"
    by (auto simp: resume_cron_job_def cron_job_resume_post_def)
  show "\<not> (\<exists>j. jobs d ju = Some j \<and> j_status j = PAUSED \<and> schedule j \<noteq> None) \<longrightarrow>
      resume_cron_job e now ju d = Inr (None, d) \<and>
      cron_job_resume_post e now ju d = Message ''Could not resume cron job.'' 409"
    by (auto simp: resume_cron_job_def cron_job_resume_post_def split: option.splits)
  show "(\<forall>c n t. croniter_get_next e c n = Inr t \<longrightarrow> n < t) \<longrightarrow>
      (\<forall>t d'. resume_cron_job e now ju d = Inr (Some t, d') \<longrightarrow> now < t)"
    using r by blast
qed

theorem pause_resume_cron_job_witness:
  "map_sum id (\<lambda>(t, d). (t, map_option (\<lambda>j. (j_status j, next_scheduled_time j)) (jobs d ''job'')))
     (resume_cron_job example_env 5400000000 ''job''
        (example_db (example_job\<lparr>j_status := PAUSED, schedule := Some ''0 * * * *''\<rparr>) []))
     = Inr (Some 7200000000, Some (STARTED, Some 7200000000)) \<and>
   (5400000000 :: int) < 7200000000 \<and>
   (case pause_cron_job ''job''
        (example_db (example_job\<lparr>j_status := STARTED, schedule := Some ''0 * * * *'',
           next_scheduled_time := Some 7200000000\<rparr>) [])
    of (ok, d) \<Rightarrow> (ok, map_option (\<lambda>j. (j_status j, next_scheduled_time j)) (jobs d ''job'')))
     = (True, Some (PAUSED, None)) \<and>
   pause_cron_job ''job'' (example_db example_job []) = (False, example_db example_job []) \<and>
   cron_job_pause_post ''job'' (example_db example_job []) = Message ''Could not pause cron job.'' 409 \<and>
   resume_cron_job example_env 5400000000 ''job'' (example_db example_job [])
     = Inr (None, example_db example_job []) \<and>
   cron_job_resume_post example_env 5400000000 ''job'' (example_db example_job [])
     = Message ''Could not resume cron job.'' 409"
proof -
  let ?p = "example_job\<lparr>j_status := PAUSED, schedule := Some ''0 * * * *''\<rparr>"
  let ?s = "example_job\<lparr>j_status := STARTED, schedule := Some ''0 * * * *'',
           next_scheduled_time := Some 7200000000\<rparr>"
  note tp = pause_resume_cron_job[of "''job''" "example_db ?p []" example_env 5400000000]
  note ts = pause_resume_cron_job[of "''job''" "example_db ?s []" example_env 5400000000]
  note tn = pause_resume_cron_job[of "''job''" "example_db example_job []" example_env 5400000000]
  have p: "jobs (example_db ?p []) ''job'' = Some ?p \<and> j_status ?p = PAUSED \<and>
      schedule ?p = Some ''0 * * * *'' \<and>
      croniter_get_next example_env ''0 * * * *'' 5400000000 = Inr 7200000000"
    by (simp add: example_db_def example_env_def)
  have s: "jobs (example_db ?s []) ''job'' = Some ?s \<and> j_status ?s = STARTED \<and> schedule ?s \<noteq> None"
    by (simp add: example_db_def)
  have n1: "\<not> (\<exists>j. jobs (example_db example_job []) ''job'' = Some j \<and> j_status j = STARTED \<and>
      schedule j \<noteq> None)"
    and n2: "\<not> (\<exists>j. jobs (example_db example_job []) ''job'' = Some j \<and> j_status j = PAUSED \<and>
      schedule j \<noteq> None)"
    by (simp_all add: example_db_def example_job_def)
  have c: "\<forall>c n t. croniter_get_next example_env c n = Inr t \<longrightarrow> n < t"
    by (auto simp: example_env_def split: if_splits)
  from tp p have a: "resume_cron_job example_env 5400000000 ''job'' (example_db ?p [])
      = Inr (Some 7200000000, (example_db ?p [])\<lparr>jobs := (jobs (example_db ?p []))
          (''job'' \<mapsto> ?p\<lparr>j_status := STARTED, next_scheduled_time := Some 7200000000\<rparr>)\<rparr>)"
    by blast
  from tp c a have lt: "(5400000000 :: int) < 7200000000" by blast
  from ts s have b: "pause_cron_job ''job'' (example_db ?s [])
      = (True, (example_db ?s [])\<lparr>jobs := (jobs (example_db ?s []))
          (''job'' \<mapsto> ?s\<lparr>j_status := PAUSED, next_scheduled_time := None\<rparr>)\<rparr>)"
    by blast
  from tn n1 n2 have
    "pause_cron_job ''job'' (example_db example_job []) = (False, example_db example_job [])"
    "cron_job_pause_post ''job'' (example_db example_job []) = Message ''Could not pause cron job.'' 409"
    "resume_cron_job example_env 5400000000 ''job'' (example_db example_job [])
       = Inr (None, example_db example_job [])"
    "cron_job_resume_post example_env 5400000000 ''job'' (example_db example_job [])
       = Message ''Could not resume cron job.'' 409"
    by blast+
  with a b lt show ?thesis by simp
qed

section \<open>Frame of UpdateJob\<close>

lemma run_job_job_row:
  assumes "run_job e ids ju d = Inr (d', ck)" and "jobs d ju = Some j"
  shows "jobs d' = (jobs d)
      (ju \<mapsto> (if j_status j = PENDING then j\<lparr>j_status := STARTED\<rparr> else j)
         \<lparr>total_scheduled_pipeline_runs :=
            total_scheduled_pipeline_runs j + int (length (j_parameters j)),
          total_scheduled_executions := total_scheduled_executions j + 1\<rparr>)"
proof -
  let ?j1 = "if j_status j = PENDING then j\<lparr>j_status := STARTED\<rparr> else j"
  from assms obtain j2 rs ss tasks where
    lr: "launch_runs e ids 0 (j_parameters ?j1) ?j1 (runs d) (steps d) [] = Inr (j2, rs, ss, tasks)"
    and d': "d' = d\<lparr>jobs := (jobs d)(ju \<mapsto> j2\<lparr>total_scheduled_executions :=
                         total_scheduled_executions j2 + 1\<rparr>), runs := rs, steps := ss\<rparr>"
    by (auto simp: run_job_def Let_def split: sum.splits if_splits)
  from launch_runs_appends[OF lr] have
    "j2 = ?j1\<lparr>total_scheduled_pipeline_runs :=
               total_scheduled_pipeline_runs ?j1 + int (length (j_parameters ?j1))\<rparr>"
    by blast
  with d' show ?thesis by (auto split: if_splits)
qed

lemma update_job_fields_frame:
  assumes "update_job_fields e now u j = Inr j'"
  shows "j_status j' = j_status j"
    and "last_scheduled_time j' = last_scheduled_time j"
    and "total_scheduled_executions j' = total_scheduled_executions j"
    and "total_scheduled_pipeline_runs j' = total_scheduled_pipeline_runs j"
    and "j_uuid j' = j_uuid j"
    and "u_name u = None \<Longrightarrow> j_name j' = j_name j"
    and "u_parameters u = None \<Longrightarrow> j_parameters j' = j_parameters j"
    and "u_env_variables u = None \<Longrightarrow> j_env_variables j' = j_env_variables j"
    and "u_strategy_json u = None \<Longrightarrow> strategy_json j' = strategy_json j"
    and "u_max_retained_pipeline_runs u = None \<Longrightarrow>
           max_retained_pipeline_runs j' = max_retained_pipeline_runs j"
    and "j_status j = DRAFT \<Longrightarrow> u_cron_schedule u = None \<Longrightarrow> u_next_scheduled_time u = None
           \<Longrightarrow> schedule j' = None \<and> next_scheduled_time j' = None"
    and "j_status j \<noteq> DRAFT \<Longrightarrow> u_cron_schedule u = None
           \<Longrightarrow> schedule j' = schedule j \<and> next_scheduled_time j' = next_scheduled_time j"
proof -
  from assms obtain j1 j2 j3 j4 j5 j6 j7 where
    s1: "upd_name u j = Inr j1" and s2: "upd_cron_schedule e now u j1 = Inr j2"
    and s3: "upd_parameters u j2 = Inr j3" and s4: "upd_env_variables e u j3 = Inr j4"
    and s5: "upd_next_scheduled_time e u j4 = Inr j5" and s6: "upd_schedule_now u j5 = Inr j6"
    and s7: "upd_strategy_json u j6 = Inr j7"
    and s8: "upd_max_retained_pipeline_runs u j7 = Inr j'"
    by (auto simp: update_job_fields_def and_then_def split: sum.splits)
  have e1: "j1 = (case u_name u of None \<Rightarrow> j | Some n \<Rightarrow> j\<lparr>j_name := n\<rparr>)"
    using s1 by (auto simp: upd_name_def split: option.splits)
  have st1: "j_status j1 = j_status j" using e1 by (simp split: option.splits)
  obtain t1 where e2: "j2 = (case u_cron_schedule u of None \<Rightarrow> j1
      | Some c \<Rightarrow> j1\<lparr>schedule := Some c, next_scheduled_time := Some t1\<rparr>)"
    using s2 by (auto simp: upd_cron_schedule_def split: option.splits if_splits sum.splits)
  have st2: "j_status j2 = j_status j" using e2 st1 by (simp split: option.splits)
  have e3: "j3 = (case u_parameters u of None \<Rightarrow> j2 | Some ps \<Rightarrow> j2\<lparr>j_parameters := ps\<rparr>)"
    using s3 by (auto simp: upd_parameters_def split: option.splits if_splits)
  have st3: "j_status j3 = j_status j" using e3 st2 by (simp split: option.splits)
  have e4: "j4 = (case u_env_variables u of None \<Rightarrow> j3 | Some vs \<Rightarrow> j3\<lparr>j_env_variables := vs\<rparr>)"
    using s4 by (auto simp: upd_env_variables_def split: option.splits if_splits)
  have st4: "j_status j4 = j_status j" using e4 st3 by (simp split: option.splits)
  have d5: "u_next_scheduled_time u \<noteq> None \<longrightarrow> j_status j = DRAFT"
    using s5 st4 by (auto simp: upd_next_scheduled_time_def split: option.splits if_splits)
  obtain t2 where e5: "j5 = (case u_next_scheduled_time u of None \<Rightarrow> j4
      | Some nst \<Rightarrow> (if u_cron_schedule u = None then j4\<lparr>schedule := None\<rparr> else j4)
                      \<lparr>next_scheduled_time := Some t2\<rparr>)"
    using s5
    by (auto simp: upd_next_scheduled_time_def Let_def split: option.splits if_splits sum.splits)
  have st5: "j_status j5 = j_status j" using e5 st4 by (simp split: option.splits)
  have e6: "j6 = (if j_status j = DRAFT \<and> u_next_scheduled_time u = None \<and>
        u_cron_schedule u = None
      then j5\<lparr>schedule := None, next_scheduled_time := None\<rparr> else j5)"
    using s6 st5 by (auto simp: upd_schedule_now_def split: if_splits)
  have e7: "j7 = (case u_strategy_json u of None \<Rightarrow> j6 | Some sj \<Rightarrow> j6\<lparr>strategy_json := sj\<rparr>)"
    using s7 by (auto simp: upd_strategy_json_def split: option.splits if_splits)
  have e8: "j' = (case u_max_retained_pipeline_runs u of None \<Rightarrow> j7
      | Some m \<Rightarrow> j7\<lparr>max_retained_pipeline_runs := m\<rparr>)"
    using s8 by (auto simp: upd_max_retained_pipeline_runs_def split: option.splits if_splits)
  have f1: "j_status j1 = j_status j \<and> last_scheduled_time j1 = last_scheduled_time j \<and>
      total_scheduled_executions j1 = total_scheduled_executions j \<and>
      total_scheduled_pipeline_runs j1 = total_scheduled_pipeline_runs j \<and>
      j_uuid j1 = j_uuid j \<and> (u_name u = None \<longrightarrow> j_name j1 = j_name j) \<and>
      j_parameters j1 = j_parameters j \<and> j_env_variables j1 = j_env_variables j \<and>
      strategy_json j1 = strategy_json j \<and>
      max_retained_pipeline_runs j1 = max_retained_pipeline_runs j \<and>
      schedule j1 = schedule j \<and> next_scheduled_time j1 = next_scheduled_time j"
    using e1 by (simp split: option.splits)
  have f2: "j_status j2 = j_status j1 \<and> last_scheduled_time j2 = last_scheduled_time j1 \<and>
      total_scheduled_executions j2 = total_scheduled_executions j1 \<and>
      total_scheduled_pipeline_runs j2 = total_scheduled_pipeline_runs j1 \<and>
      j_uuid j2 = j_uuid j1 \<and> j_name j2 = j_name j1 \<and>
      j_parameters j2 = j_parameters j1 \<and> j_env_variables j2 = j_env_variables j1 \<and>
      strategy_json j2 = strategy_json j1 \<and>
      max_retained_pipeline_runs j2 = max_retained_pipeline_runs j1 \<and>
      (u_cron_schedule u = None \<longrightarrow>
         schedule j2 = schedule j1 \<and> next_scheduled_time j2 = next_scheduled_time j1)"
    using e2 by (simp split: option.splits)
  have f3: "j_status j3 = j_status j2 \<and> last_scheduled_time j3 = last_scheduled_time j2 \<and>
      total_scheduled_executions j3 = total_scheduled_executions j2 \<and>
      total_scheduled_pipeline_runs j3 = total_scheduled_pipeline_runs j2 \<and>
      j_uuid j3 = j_uuid j2 \<and> j_name j3 = j_name j2 \<and>
      (u_parameters u = None \<longrightarrow> j_parameters j3 = j_parameters j2) \<and>
      j_env_variables j3 = j_env_variables j2 \<and>
      strategy_json j3 = strategy_json j2 \<and>
      max_retained_pipeline_runs j3 = max_retained_pipeline_runs j2 \<and>
      schedule j3 = schedule j2 \<and> next_scheduled_time j3 = next_scheduled_time j2"
    using e3 by (simp split: option.splits)
  have f4: "j_status j4 = j_status j3 \<and> last_scheduled_time j4 = last_scheduled_time j3 \<and>
      total_scheduled_executions j4 = total_scheduled_executions j3 \<and>
      total_scheduled_pipeline_runs j4 = total_scheduled_pipeline_runs j3 \<and>
      j_uuid j4 = j_uuid j3 \<and> j_name j4 = j_name j3 \<and>
      j_parameters j4 = j_parameters j3 \<and>
      (u_env_variables u = None \<longrightarrow> j_env_variables j4 = j_env_variables j3) \<and>
      strategy_json j4 = strategy_json j3 \<and>
      max_retained_pipeline_runs j4 = max_retained_pipeline_runs j3 \<and>
      schedule j4 = schedule j3 \<and> next_scheduled_time j4 = next_scheduled_time j3"
    using e4 by (simp split: option.splits)
  have f5: "j_status j5 = j_status j4 \<and> last_scheduled_time j5 = last_scheduled_time j4 \<and>
      total_scheduled_executions j5 = total_scheduled_executions j4 \<and>
      total_scheduled_pipeline_runs j5 = total_scheduled_pipeline_runs j4 \<and>
      j_uuid j5 = j_uuid j4 \<and> j_name j5 = j_name j4 \<and>
      j_parameters j5 = j_parameters j4 \<and> j_env_variables j5 = j_env_variables j4 \<and>
      strategy_json j5 = strategy_json j4 \<and>
      max_retained_pipeline_runs j5 = max_retained_pipeline_runs j4 \<and>
      (u_next_scheduled_time u = None \<longrightarrow>
         schedule j5 = schedule j4 \<and> next_scheduled_time j5 = next_scheduled_time j4)"
    using e5 by (simp split: option.splits)
  have f6: "j_status j6 = j_status j5 \<and> last_scheduled_time j6 = last_scheduled_time j5 \<and>
      total_scheduled_executions j6 = total_scheduled_executions j5 \<and>
      total_scheduled_pipeline_runs j6 = total_scheduled_pipeline_runs j5 \<and>
      j_uuid j6 = j_uuid j5 \<and> j_name j6 = j_name j5 \<and>
      j_parameters j6 = j_parameters j5 \<and> j_env_variables j6 = j_env_variables j5 \<and>
      strategy_json j6 = strategy_json j5 \<and>
      max_retained_pipeline_runs j6 = max_retained_pipeline_runs j5 \<and>
      (j_status j = DRAFT \<and> u_next_scheduled_time u = None \<and> u_cron_schedule u = None \<longrightarrow>
         schedule j6 = None \<and> next_scheduled_time j6 = None) \<and>
      (j_status j \<noteq> DRAFT \<longrightarrow>
         schedule j6 = schedule j5 \<and> next_scheduled_time j6 = next_scheduled_time j5)"
    using e6 by simp
  have f7: "j_status j7 = j_status j6 \<and> last_scheduled_time j7 = last_scheduled_time j6 \<and>
      total_scheduled_executions j7 = total_scheduled_executions j6 \<and>
      total_scheduled_pipeline_runs j7 = total_scheduled_pipeline_runs j6 \<and>
      j_uuid j7 = j_uuid j6 \<and> j_name j7 = j_name j6 \<and>
      j_parameters j7 = j_parameters j6 \<and> j_env_variables j7 = j_env_variables j6 \<and>
      (u_strategy_json u = None \<longrightarrow> strategy_json j7 = strategy_json j6) \<and>
      max_retained_pipeline_runs j7 = max_retained_pipeline_runs j6 \<and>
      schedule j7 = schedule j6 \<and> next_scheduled_time j7 = next_scheduled_time j6"
    using e7 by (simp split: option.splits)
  have f8: "j_status j' = j_status j7 \<and> last_scheduled_time j' = last_scheduled_time j7 \<and>
      total_scheduled_executions j' = total_scheduled_executions j7 \<and>
      total_scheduled_pipeline_runs j' = total_scheduled_pipeline_runs j7 \<and>
      j_uuid j' = j_uuid j7 \<and> j_name j' = j_name j7 \<and>
      j_parameters j' = j_parameters j7 \<and> j_env_variables j' = j_env_variables j7 \<and>
      strategy_json j' = strategy_json j7 \<and>
      (u_max_retained_pipeline_runs u = None \<longrightarrow>
         max_retained_pipeline_runs j' = max_retained_pipeline_runs j7) \<and>
      schedule j' = schedule j7 \<and> next_scheduled_time j' = next_scheduled_time j7"
    using e8 by (simp split: option.splits)
  note fs = f1 f2 f3 f4 f5 f6 f7 f8
  show "j_status j' = j_status j" using fs by simp
  show "last_scheduled_time j' = last_scheduled_time j" using fs by simp
  show "total_scheduled_executions j' = total_scheduled_executions j" using fs by simp
  show "total_scheduled_pipeline_runs j' = total_scheduled_pipeline_runs j" using fs by simp
  show "j_uuid j' = j_uuid j" using fs by simp
  show "u_name u = None \<Longrightarrow> j_name j' = j_name j" using fs by simp
  show "u_parameters u = None \<Longrightarrow> j_parameters j' = j_parameters j" using fs by simp
  show "u_env_variables u = None \<Longrightarrow> j_env_variables j' = j_env_variables j" using fs by simp
  show "u_strategy_json u = None \<Longrightarrow> strategy_json j' = strategy_json j" using fs by simp
  show "u_max_retained_pipeline_runs u = None \<Longrightarrow>
      max_retained_pipeline_runs j' = max_retained_pipeline_runs j" using fs by simp
  show "j_status j = DRAFT \<Longrightarrow> u_cron_schedule u = None \<Longrightarrow> u_next_scheduled_time u = None
      \<Longrightarrow> schedule j' = None \<and> next_scheduled_time j' = None" using fs by simp
  show "j_status j \<noteq> DRAFT \<Longrightarrow> u_cron_schedule u = None
      \<Longrightarrow> schedule j' = schedule j \<and> next_scheduled_time j' = next_scheduled_time j"
    using fs d5 by auto
qed


lemma update_job_fields_supplied:
  assumes "update_job_fields e now u j = Inr j'"
  shows "u_cron_schedule u = Some c \<Longrightarrow>
           u_next_scheduled_time u = None \<and> schedule j' = Some c \<and>
           (\<exists>t. croniter_get_next e c now = Inr t \<and> next_scheduled_time j' = Some t)"
    and "u_next_scheduled_time u = Some s \<Longrightarrow> u_cron_schedule u = None \<Longrightarrow>
           j_status j = DRAFT \<and> schedule j' = None \<and>
           (\<exists>t. fromisoformat e s = Inr t \<and> next_scheduled_time j' = Some t)"
proof -
  from assms obtain j1 j2 j3 j4 j5 j6 j7 where
    s1: "upd_name u j = Inr j1" and s2: "upd_cron_schedule e now u j1 = Inr j2"
    and s3: "upd_parameters u j2 = Inr j3" and s4: "upd_env_variables e u j3 = Inr j4"
    and s5: "upd_next_scheduled_time e u j4 = Inr j5" and s6: "upd_schedule_now u j5 = Inr j6"
    and s7: "upd_strategy_json u j6 = Inr j7"
    and s8: "upd_max_retained_pipeline_runs u j7 = Inr j'"
    by (auto simp: update_job_fields_def and_then_def split: sum.splits)
  have k1: "j_status j1 = j_status j"
    using s1 by (auto simp: upd_name_def split: option.splits)
  have k3: "j_status j3 = j_status j2 \<and> schedule j3 = schedule j2 \<and>
      next_scheduled_time j3 = next_scheduled_time j2"
    using s3 by (auto simp: upd_parameters_def split: option.splits if_splits)
  have k4: "j_status j4 = j_status j3 \<and> schedule j4 = schedule j3 \<and>
      next_scheduled_time j4 = next_scheduled_time j3"
    using s4 by (auto simp: upd_env_variables_def split: option.splits if_splits)
  have k7: "j_status j7 = j_status j6 \<and> schedule j7 = schedule j6 \<and>
      next_scheduled_time j7 = next_scheduled_time j6"
    using s7 by (auto simp: upd_strategy_json_def split: option.splits if_splits)
  have k8: "j_status j' = j_status j7 \<and> schedule j' = schedule j7 \<and>
      next_scheduled_time j' = next_scheduled_time j7"
    using s8 by (auto simp: upd_max_retained_pipeline_runs_def split: option.splits if_splits)
  {
    assume c: "u_cron_schedule u = Some c"
    from s2 c obtain t where t: "croniter_get_next e c now = Inr t"
      and e2: "j2 = j1\<lparr>schedule := Some c, next_scheduled_time := Some t\<rparr>"
      by (auto simp: upd_cron_schedule_def split: if_splits sum.splits)
    have sc4: "schedule j4 = Some c" "next_scheduled_time j4 = Some t"
      using e2 k3 k4 by simp_all
    have n: "u_next_scheduled_time u = None"
      using s5 sc4 c by (auto simp: upd_next_scheduled_time_def split: option.splits if_splits)
    then have e5: "j5 = j4" using s5 by (simp add: upd_next_scheduled_time_def)
    have e6: "j6 = j5" using s6 c by (simp add: upd_schedule_now_def)
    show "u_next_scheduled_time u = None \<and> schedule j' = Some c \<and>
        (\<exists>t. croniter_get_next e c now = Inr t \<and> next_scheduled_time j' = Some t)"
      using n t sc4 e5 e6 k7 k8 by simp
  }
  {
    assume n: "u_next_scheduled_time u = Some s" and c: "u_cron_schedule u = None"
    have e2: "j2 = j1" using s2 c by (simp add: upd_cron_schedule_def)
    have st4: "j_status j4 = j_status j" using k1 e2 k3 k4 by simp
    from s5 n c obtain t where t: "fromisoformat e s = Inr t"
      and dr: "j_status j4 = DRAFT"
      and e5: "j5 = j4\<lparr>schedule := None, next_scheduled_time := Some t\<rparr>"
      by (auto simp: upd_next_scheduled_time_def Let_def split: if_splits sum.splits)
    have e6: "j6 = j5" using s6 n by (simp add: upd_schedule_now_def)
    show "j_status j = DRAFT \<and> schedule j' = None \<and>
        (\<exists>t. fromisoformat e s = Inr t \<and> next_scheduled_time j' = Some t)"
      using t dr st4 e5 e6 k7 k8 by simp
  }
qed

lemma confirm_draft_effects:
  assumes "confirm_draft e now ids ju d jf = Inr (d', ck)" and "j_uuid jf = ju"
  shows "j_status jf = DRAFT"
    and "schedule jf = None \<Longrightarrow> next_scheduled_time jf = None \<Longrightarrow>
           \<exists>ck'. ck = Some ck' \<and>
             run_job e ids ju
               (d\<lparr>jobs := (jobs d)
                    (ju \<mapsto> jf\<lparr>j_status := PENDING, last_scheduled_time := Some now\<rparr>)\<rparr>)
               = Inr (d', ck')"
    and "schedule jf = None \<Longrightarrow> next_scheduled_time jf \<noteq> None \<Longrightarrow>
           d' = d\<lparr>jobs := (jobs d)
                  (ju \<mapsto> jf\<lparr>j_status := PENDING,
                           last_scheduled_time := next_scheduled_time jf\<rparr>)\<rparr> \<and> ck = None"
    and "schedule jf \<noteq> None \<Longrightarrow>
           d' = d\<lparr>jobs := (jobs d)
                  (ju \<mapsto> jf\<lparr>last_scheduled_time := next_scheduled_time jf,
                           j_status := STARTED\<rparr>)\<rparr> \<and> ck = None"
proof -
  show dr: "j_status jf = DRAFT"
    using assms(1) by (auto simp: confirm_draft_def split: if_splits)
  from assms(1) dr have mi: "get_env_uuids_missing_image e (j_project_uuid jf)
      (remdups (map (\<lambda>(k, sd). sd_environment sd) (pd_steps (j_pipeline_definition jf)))) = []"
    by (auto simp: confirm_draft_def Let_def split: if_splits)
  show "schedule jf = None \<Longrightarrow> next_scheduled_time jf = None \<Longrightarrow>
      \<exists>ck'. ck = Some ck' \<and>
        run_job e ids ju
          (d\<lparr>jobs := (jobs d)
               (ju \<mapsto> jf\<lparr>j_status := PENDING, last_scheduled_time := Some now\<rparr>)\<rparr>)
          = Inr (d', ck')"
    using assms dr mi by (auto simp: confirm_draft_def Let_def split: sum.splits)
  show "schedule jf = None \<Longrightarrow> next_scheduled_time jf \<noteq> None \<Longrightarrow>
      d' = d\<lparr>jobs := (jobs d)
             (ju \<mapsto> jf\<lparr>j_status := PENDING,
                      last_scheduled_time := next_scheduled_time jf\<rparr>)\<rparr> \<and> ck = None"
    using assms dr mi by (auto simp: confirm_draft_def Let_def)
  show "schedule jf \<noteq> None \<Longrightarrow>
      d' = d\<lparr>jobs := (jobs d)
             (ju \<mapsto> jf\<lparr>last_scheduled_time := next_scheduled_time jf,
                      j_status := STARTED\<rparr>)\<rparr> \<and> ck = None"
    using assms dr mi by (auto simp: confirm_draft_def Let_def)
qed


text \<open>
  Claim C10, as amended. After a call of \<^verbatim>\<open>UpdateJob\<close> that returns, on a DRAFT job
  and with neither \<^verbatim>\<open>cron_schedule\<close> nor \<^verbatim>\<open>next_scheduled_time\<close> in the payload,
  the schedule and \<^verbatim>\<open>next_scheduled_time\<close> of the job are \<open>None\<close>, with or without
  \<^verbatim>\<open>confirm_draft\<close>. Of the other blocks, a supplied \<^verbatim>\<open>cron_schedule\<close> sets the
  schedule and also sets \<^verbatim>\<open>next_scheduled_time\<close> to croniter's next occurrence; a
  supplied \<^verbatim>\<open>next_scheduled_time\<close> without \<^verbatim>\<open>cron_schedule\<close> is accepted on a DRAFT
  only, sets that time and also sets the schedule to \<open>None\<close>; \<^verbatim>\<open>confirm_draft\<close> is
  accepted on a DRAFT only and sets the status and \<^verbatim>\<open>last_scheduled_time\<close>: STARTED
  and the current time with the job run inline (one run per parameter set, the counters
  raised, the tasks handed over) when there is no schedule and no scheduled time,
  PENDING and the scheduled time when there is a scheduled time and no schedule,
  STARTED and the scheduled time when there is a schedule. Apart from these, the name,
  the parameters, the env variables, the strategy json and
  \<^verbatim>\<open>max_retained_pipeline_runs\<close> change only when supplied; the schedule and
  \<^verbatim>\<open>next_scheduled_time\<close> of a job that is not a DRAFT change only when
  \<^verbatim>\<open>cron_schedule\<close> is supplied; without \<^verbatim>\<open>confirm_draft\<close> the status,
  \<^verbatim>\<open>last_scheduled_time\<close>, the two counters, the runs and the steps stay as they are;
  no other job row changes.
\<close>
theorem update_job_effects:
  assumes "jobs d ju = Some j" and "j_uuid j = ju"
    and "update_job e now ids ju u d = Inr (d', ck)"
  shows "\<exists>j'. jobs d' = (jobs d)(ju \<mapsto> j') \<and>
     (j_status j = DRAFT \<and> u_cron_schedule u = None \<and> u_next_scheduled_time u = None \<longrightarrow>
        schedule j' = None \<and> next_scheduled_time j' = None) \<and>
     (u_name u = None \<longrightarrow> j_name j' = j_name j) \<and>
     (u_parameters u = None \<longrightarrow> j_parameters j' = j_parameters j) \<and>
     (u_env_variables u = None \<longrightarrow> j_env_variables j' = j_env_variables j) \<and>
     (u_strategy_json u = None \<longrightarrow> strategy_json j' = strategy_json j) \<and>
     (u_max_retained_pipeline_runs u = None \<longrightarrow>
        max_retained_pipeline_runs j' = max_retained_pipeline_runs j) \<and>
     (j_status j \<noteq> DRAFT \<and> u_cron_schedule u = None \<longrightarrow>
        schedule j' = schedule j \<and> next_scheduled_time j' = next_scheduled_time j) \<and>
     (\<not> u_confirm_draft u \<longrightarrow>
        j_status j' = j_status j \<and> last_scheduled_time j' = last_scheduled_time j \<and>
        total_scheduled_executions j' = total_scheduled_executions j \<and>
        total_scheduled_pipeline_runs j' = total_scheduled_pipeline_runs j \<and>
        runs d' = runs d \<and> steps d' = steps d \<and> ck = None) \<and>
     (\<forall>c. u_cron_schedule u = Some c \<longrightarrow>
        u_next_scheduled_time u = None \<and> schedule j' = Some c \<and>
        (\<exists>t. croniter_get_next e c now = Inr t \<and> next_scheduled_time j' = Some t)) \<and>
     (\<forall>s. u_next_scheduled_time u = Some s \<and> u_cron_schedule u = None \<longrightarrow>
        j_status j = DRAFT \<and> schedule j' = None \<and>
        (\<exists>t. fromisoformat e s = Inr t \<and> next_scheduled_time j' = Some t)) \<and>
     (u_confirm_draft u \<longrightarrow>
        j_status j = DRAFT \<and>
        (schedule j' = None \<and> next_scheduled_time j' = None \<longrightarrow>
           j_status j' = STARTED \<and> last_scheduled_time j' = Some now \<and>
           total_scheduled_executions j' = total_scheduled_executions j + 1 \<and>
           total_scheduled_pipeline_runs j'
             = total_scheduled_pipeline_runs j + int (length (j_parameters j')) \<and>
           (\<exists>ck' new. ck = Some ck' \<and> runs d' = runs d @ new \<and>
              length new = length (j_parameters j') \<and>
              map r_uuid new = map fst (ck_tasks_to_launch ck'))) \<and>
        (schedule j' = None \<and> next_scheduled_time j' \<noteq> None \<longrightarrow>
           j_status j' = PENDING \<and> last_scheduled_time j' = next_scheduled_time j' \<and>
           total_scheduled_executions j' = total_scheduled_executions j \<and>
           total_scheduled_pipeline_runs j' = total_scheduled_pipeline_runs j \<and>
           runs d' = runs d \<and> steps d' = steps d \<and> ck = None) \<and>
        (schedule j' \<noteq> None \<longrightarrow>
           j_status j' = STARTED \<and> last_scheduled_time j' = next_scheduled_time j' \<and>
           total_scheduled_executions j' = total_scheduled_executions j \<and>
           total_scheduled_pipeline_runs j' = total_scheduled_pipeline_runs j \<and>
           runs d' = runs d \<and> steps d' = steps d \<and> ck = None))"
proof -
  from assms(1,3) obtain jf where uf: "update_job_fields e now u j = Inr jf"
    and r: "if u_confirm_draft u then confirm_draft e now ids ju d jf = Inr (d', ck)
            else d' = d\<lparr>jobs := (jobs d)(ju \<mapsto> jf)\<rparr> \<and> ck = None"
    by (auto simp: update_job_def split: sum.splits if_splits)
  note fr = update_job_fields_frame[OF uf]
  have sp1: "\<forall>c. u_cron_schedule u = Some c \<longrightarrow>
      u_next_scheduled_time u = None \<and> schedule jf = Some c \<and>
      (\<exists>t. croniter_get_next e c now = Inr t \<and> next_scheduled_time jf = Some t)"
    using update_job_fields_supplied(1)[OF uf] by blast
  have sp2: "\<forall>s. u_next_scheduled_time u = Some s \<and> u_cron_schedule u = None \<longrightarrow>
      j_status j = DRAFT \<and> schedule jf = None \<and>
      (\<exists>t. fromisoformat e s = Inr t \<and> next_scheduled_time jf = Some t)"
    using update_job_fields_supplied(2)[OF uf] by blast
  have uj: "j_uuid jf = ju" using fr(5) assms(2) by simp
  show ?thesis
  proof (cases "u_confirm_draft u")
    case False
    with r have d': "d' = d\<lparr>jobs := (jobs d)(ju \<mapsto> jf)\<rparr>" "ck = None" by simp_all
    show ?thesis
      apply (rule exI[of _ jf])
      using False d' fr sp1 sp2 by simp
  next
    case True
    with r have c: "confirm_draft e now ids ju d jf = Inr (d', ck)" by simp
    note ce = confirm_draft_effects[OF c uj]
    have dj: "j_status j = DRAFT" using ce(1) fr(1) by simp
    consider (inline) "schedule jf = None" "next_scheduled_time jf = None"
      | (later) "schedule jf = None" "next_scheduled_time jf \<noteq> None"
      | (cron) "schedule jf \<noteq> None"
      by blast
    then show ?thesis
    proof cases
      case inline
      let ?j2 = "jf\<lparr>j_status := PENDING, last_scheduled_time := Some now\<rparr>"
      let ?d2 = "d\<lparr>jobs := (jobs d)(ju \<mapsto> ?j2)\<rparr>"
      let ?j' = "?j2\<lparr>j_status := STARTED,
          total_scheduled_pipeline_runs :=
            total_scheduled_pipeline_runs jf + int (length (j_parameters jf)),
          total_scheduled_executions := total_scheduled_executions jf + 1\<rparr>"
      from ce(2)[OF inline] obtain ck' where ck': "ck = Some ck'"
        and rj: "run_job e ids ju ?d2 = Inr (d', ck')" by blast
      have j2: "jobs ?d2 ju = Some ?j2" by simp
      from run_job_job_row[OF rj j2] have row: "jobs d' = (jobs d)(ju \<mapsto> ?j')"
        by simp
      from run_job_step[OF rj j2] obtain new where new:
        "runs d' = runs d @ new" "length new = length (j_parameters jf)"
        "map r_uuid new = map fst (ck_tasks_to_launch ck')"
        by auto
      have g4: "\<exists>ck' new. ck = Some ck' \<and> runs d' = runs d @ new \<and>
          length new = length (j_parameters ?j') \<and>
          map r_uuid new = map fst (ck_tasks_to_launch ck')"
        using ck' new by auto
      show ?thesis
        apply (rule exI[of _ ?j'])
        using True row inline dj fr sp1 sp2 g4 by simp
    next
      case later
      from ce(3)[OF later] have d': "d' = d\<lparr>jobs := (jobs d)
          (ju \<mapsto> jf\<lparr>j_status := PENDING, last_scheduled_time := next_scheduled_time jf\<rparr>)\<rparr>"
        and ck: "ck = None" by simp_all
      show ?thesis
        apply (rule exI[of _ "jf\<lparr>j_status := PENDING,
            last_scheduled_time := next_scheduled_time jf\<rparr>"])
        using True d' ck later dj fr sp1 sp2 by simp
    next
      case cron
      from ce(4)[OF cron] have d': "d' = d\<lparr>jobs := (jobs d)
          (ju \<mapsto> jf\<lparr>last_scheduled_time := next_scheduled_time jf, j_status := STARTED\<rparr>)\<rparr>"
        and ck: "ck = None" by simp_all
      show ?thesis
        apply (rule exI[of _ "jf\<lparr>last_scheduled_time := next_scheduled_time jf,
            j_status := STARTED\<rparr>"])
        using True d' ck cron dj fr sp1 sp2 by simp
    qed
  qed
qed


text \<open>
  Counterexample to claim C10 as stated. A payload that holds \<^verbatim>\<open>next_scheduled_time\<close>
  only makes the block of that argument set the schedule of a DRAFT job to \<open>None\<close>,
  and a payload that holds \<^verbatim>\<open>cron_schedule\<close> only makes the block of that argument
  replace the stored \<^verbatim>\<open>next_scheduled_time\<close>: both blocks write a field the payload
  did not supply.
\<close>
theorem update_job_frame_counterexample:
  "map_sum id (\<lambda>(d, ck). map_option (\<lambda>j. (schedule j, next_scheduled_time j)) (jobs d ''job''))
     (update_job example_env 0 (\<lambda>k. ''run-a'') ''job''
        (empty_update\<lparr>u_next_scheduled_time := Some ''1970-01-02T00:00:00''\<rparr>)
        (example_db (cron_job_row DRAFT) []))
     = Inr (Some (None, Some 86400000000)) \<and>
   schedule (cron_job_row DRAFT) = Some ''0 * * * *'' \<and>
   map_sum id (\<lambda>(d, ck). map_option (\<lambda>j. (schedule j, next_scheduled_time j)) (jobs d ''job''))
     (update_job example_env 5400000000 (\<lambda>k. ''run-a'') ''job''
        (empty_update\<lparr>u_cron_schedule := Some ''0 * * * *''\<rparr>)
        (example_db (cron_job_row STARTED) []))
     = Inr (Some (Some ''0 * * * *'', Some 7200000000)) \<and>
   next_scheduled_time (cron_job_row STARTED) = Some 3600000000"
  by (simp add: update_job_def update_job_fields_def and_then_def upd_defs empty_update_def
      example_db_def cron_job_row_def example_job_def example_env_def)

text \<open>The definitions an update is evaluated with.\<close>
lemmas update_job_eval = update_job_def update_job_fields_def and_then_def upd_defs
  empty_update_def example_db_def cron_job_row_def example_job_def job_view_def
  confirm_draft_def example_pipeline_definition_def

theorem update_job_effects_witness:
  "map_sum id job_view
     (update_job example_env 0 (\<lambda>k. ''run-a'') ''job''
        (empty_update\<lparr>u_name := Some ''weekly''\<rparr>) (example_db (cron_job_row DRAFT) []))
     = Inr (Some (''weekly'', DRAFT, None, None, None, 0, 0), [], None) \<and>
   map_sum id job_view
     (update_job example_env 5400000000 (\<lambda>k. ''run-a'') ''job''
        (empty_update\<lparr>u_cron_schedule := Some ''0 * * * *''\<rparr>)
        (example_db (cron_job_row STARTED) []))
     = Inr (Some (''nightly'', STARTED, Some ''0 * * * *'', Some 7200000000, None, 0, 0),
            [], None) \<and>
   map_sum id job_view
     (update_job example_env 0 (\<lambda>k. ''run-a'') ''job''
        (empty_update\<lparr>u_next_scheduled_time := Some ''1970-01-02T00:00:00''\<rparr>)
        (example_db (cron_job_row DRAFT) []))
     = Inr (Some (''nightly'', DRAFT, None, Some 86400000000, None, 0, 0), [], None) \<and>
   map_sum id job_view
     (update_job example_env 7 (\<lambda>k. if k = 0 then ''run-a'' else ''run-b'') ''job''
        (empty_update\<lparr>u_confirm_draft := True\<rparr>)
        (example_db (example_job\<lparr>j_status := DRAFT\<rparr>) []))
     = Inr (Some (''nightly'', STARTED, None, None, Some 7, 1, 2), [''run-a'', ''run-b''],
            Some [''run-a'', ''run-b'']) \<and>
   map_sum id job_view
     (update_job example_env 7 (\<lambda>k. ''run-a'') ''job''
        (empty_update\<lparr>u_next_scheduled_time := Some ''1970-01-02T00:00:00'',
                       u_confirm_draft := True\<rparr>)
        (example_db (example_job\<lparr>j_status := DRAFT\<rparr>) []))
     = Inr (Some (''nightly'', PENDING, None, Some 86400000000, Some 86400000000, 0, 0),
            [], None) \<and>
   map_sum id job_view
     (update_job example_env 5400000000 (\<lambda>k. ''run-a'') ''job''
        (empty_update\<lparr>u_cron_schedule := Some ''0 * * * *'', u_confirm_draft := True\<rparr>)
        (example_db (example_job\<lparr>j_status := DRAFT\<rparr>) []))
     = Inr (Some (''nightly'', STARTED, Some ''0 * * * *'', Some 7200000000,
                  Some 7200000000, 0, 0), [], None)"
proof -
  let ?ids = "\<lambda>k::nat. ''run-a''"
  let ?ids2 = "\<lambda>k::nat. if k = 0 then ''run-a'' else ''run-b''"
  let ?draft = "example_job\<lparr>j_status := DRAFT\<rparr>"
  let ?u1 = "empty_update\<lparr>u_name := Some ''weekly''\<rparr>"
  let ?u2 = "empty_update\<lparr>u_cron_schedule := Some ''0 * * * *''\<rparr>"
  let ?u3 = "empty_update\<lparr>u_next_scheduled_time := Some ''1970-01-02T00:00:00''\<rparr>"
  let ?u4 = "empty_update\<lparr>u_confirm_draft := True\<rparr>"
  let ?u5 = "empty_update\<lparr>u_next_scheduled_time := Some ''1970-01-02T00:00:00'',
                       u_confirm_draft := True\<rparr>"
  let ?u6 = "empty_update\<lparr>u_cron_schedule := Some ''0 * * * *'', u_confirm_draft := True\<rparr>"
  have jc: "\<And>st. jobs (example_db (cron_job_row st) []) ''job'' = Some (cron_job_row st)"
    and jd: "jobs (example_db ?draft []) ''job'' = Some ?draft"
    by (simp_all add: example_db_def)
  have kc: "\<And>st. j_uuid (cron_job_row st) = ''job''" and kd: "j_uuid ?draft = ''job''"
    by (simp_all add: cron_job_row_def example_job_def)
  have v1: "map_sum id job_view
     (update_job example_env 0 ?ids ''job'' ?u1 (example_db (cron_job_row DRAFT) []))
     = Inr (Some (''weekly'', DRAFT, None, None, None, 0, 0), [], None)"
    by (simp add: update_job_eval)
  have v2: "map_sum id job_view
     (update_job example_env 5400000000 ?ids ''job'' ?u2 (example_db (cron_job_row STARTED) []))
     = Inr (Some (''nightly'', STARTED, Some ''0 * * * *'', Some 7200000000, None, 0, 0),
            [], None)"
    by (simp add: update_job_eval example_env_def)
  have v3: "map_sum id job_view
     (update_job example_env 0 ?ids ''job'' ?u3 (example_db (cron_job_row DRAFT) []))
     = Inr (Some (''nightly'', DRAFT, None, Some 86400000000, None, 0, 0), [], None)"
    by (simp add: update_job_eval example_env_def)
  have v4: "map_sum id job_view
     (update_job example_env 7 ?ids2 ''job'' ?u4 (example_db ?draft []))
     = Inr (Some (''nightly'', STARTED, None, None, Some 7, 1, 2), [''run-a'', ''run-b''],
            Some [''run-a'', ''run-b''])"
    by (simp add: update_job_eval example_env_def run_job_def Let_def)
  have v5: "map_sum id job_view
     (update_job example_env 7 ?ids ''job'' ?u5 (example_db ?draft []))
     = Inr (Some (''nightly'', PENDING, None, Some 86400000000, Some 86400000000, 0, 0),
            [], None)"
    by (simp add: update_job_eval example_env_def Let_def)
  have v6: "map_sum id job_view
     (update_job example_env 5400000000 ?ids ''job'' ?u6 (example_db ?draft []))
     = Inr (Some (''nightly'', STARTED, Some ''0 * * * *'', Some 7200000000,
                  Some 7200000000, 0, 0), [], None)"
    by (simp add: update_job_eval example_env_def Let_def)
  from v1 obtain d1 c1 where r1:
    "update_job example_env 0 ?ids ''job'' ?u1 (example_db (cron_job_row DRAFT) []) = Inr (d1, c1)"
    by (cases "update_job example_env 0 ?ids ''job'' ?u1 (example_db (cron_job_row DRAFT) [])")
      auto
  from v2 obtain d2 c2 where r2:
    "update_job example_env 5400000000 ?ids ''job'' ?u2 (example_db (cron_job_row STARTED) [])
       = Inr (d2, c2)"
    by (cases "update_job example_env 5400000000 ?ids ''job'' ?u2
        (example_db (cron_job_row STARTED) [])") auto
  from v3 obtain d3 c3 where r3:
    "update_job example_env 0 ?ids ''job'' ?u3 (example_db (cron_job_row DRAFT) []) = Inr (d3, c3)"
    by (cases "update_job example_env 0 ?ids ''job'' ?u3 (example_db (cron_job_row DRAFT) [])")
      auto
  from v4 obtain d4 c4 where r4:
    "update_job example_env 7 ?ids2 ''job'' ?u4 (example_db ?draft []) = Inr (d4, c4)"
    by (cases "update_job example_env 7 ?ids2 ''job'' ?u4 (example_db ?draft [])") auto
  from v5 obtain d5 c5 where r5:
    "update_job example_env 7 ?ids ''job'' ?u5 (example_db ?draft []) = Inr (d5, c5)"
    by (cases "update_job example_env 7 ?ids ''job'' ?u5 (example_db ?draft [])") auto
  from v6 obtain d6 c6 where r6:
    "update_job example_env 5400000000 ?ids ''job'' ?u6 (example_db ?draft []) = Inr (d6, c6)"
    by (cases "update_job example_env 5400000000 ?ids ''job'' ?u6 (example_db ?draft [])") auto
  from update_job_effects[OF jc kc r1] update_job_effects[OF jc kc r2]
    update_job_effects[OF jc kc r3] update_job_effects[OF jd kd r4]
    update_job_effects[OF jd kd r5] update_job_effects[OF jd kd r6]
    v1 v2 v3 v4 v5 v6
  show ?thesis by blast
qed

end
